theory Spec2Isabelle
  imports Main
begin

section \<open>JavaScript values and the platform\<close>

text \<open>
  The server is TypeScript on Node. Its values are modelled by \<open>jsvalue\<close>: the JSON
  values together with \<open>undefined\<close> and with functions, which a program meets as the
  inherited members of a plain object; \<open>Fun s\<close> is a function that \<open>String\<close> prints
  as \<open>s\<close>. An object is the list of its own properties in
  enumeration order (what \<open>Object.entries\<close> yields), keys distinct. A string is the
  list of the bytes of its UTF-8 encoding, so every well-formed string is covered and a
  string with a lone surrogate is not. Numbers are IEEE doubles on the platform; the
  model leaves the number type \<open>'n\<close> open and takes what the code asks of the
  platform about numbers, dates and URLs as the fields of a record.
\<close>

datatype 'n jsvalue =
    Undefined
  | Null
  | Bool bool
  | Num 'n
  | Str string
  | Arr "'n jsvalue list"
  | Obj "(string \<times> 'n jsvalue) list"
  | Fun string

text \<open>What a thrown value is to a \<open>catch\<close> block: an \<open>Error\<close> instance with its
  message, or anything else.\<close>

datatype thrown = Error string | NonError

record 'n platform =
  numberToString :: "'n \<Rightarrow> string"
  numberToBoolean :: "'n \<Rightarrow> bool"
  toNumber :: "'n jsvalue \<Rightarrow> 'n"
  dateParse :: "string \<Rightarrow> int option"
  urlPathname :: "string \<Rightarrow> string option"
  objectPrototype :: "string \<Rightarrow> 'n jsvalue option"

text \<open>
  \<^item> \<open>numberToString\<close> is \<open>Number.prototype.toString\<close>, \<open>numberToBoolean\<close> is
    \<open>Boolean(n)\<close> on a number, \<open>toNumber\<close> is \<open>Number(v)\<close>;
  \<^item> \<open>dateParse s\<close> is the time value of \<open>new Date(s)\<close> in milliseconds since the
    epoch, \<open>None\<close> for an invalid date;
  \<^item> \<open>urlPathname u\<close> is \<open>new URL(u).pathname\<close>, \<open>None\<close> where the constructor
    throws;
  \<^item> \<open>objectPrototype k\<close> is the member \<open>k\<close> that a plain object inherits from
    \<open>Object.prototype\<close> (\<open>constructor\<close>, \<open>toString\<close>, \<open>__proto__\<close>, ...),
    \<open>None\<close> when there is no such member.
\<close>

subsection \<open>Joining and property access\<close>

fun join :: "string \<Rightarrow> string list \<Rightarrow> string" where
  "join sep [] = []"
| "join sep [x] = x"
| "join sep (x # y # ys) = x @ sep @ join sep (y # ys)"

text \<open>The own property \<open>k\<close> of an object, and \<open>o[k]\<close>, which also finds the
  members the object inherits.\<close>

definition obj_get :: "(string \<times> 'n jsvalue) list \<Rightarrow> string \<Rightarrow> 'n jsvalue" where
  "obj_get ps k = (case map_of ps k of None \<Rightarrow> Undefined | Some v \<Rightarrow> v)"

definition prop_get :: "'n platform \<Rightarrow> (string \<times> 'n jsvalue) list \<Rightarrow> string \<Rightarrow> 'n jsvalue" where
  "prop_get P ps k =
     (case map_of ps k of
        Some v \<Rightarrow> v
      | None \<Rightarrow> (case objectPrototype P k of Some v \<Rightarrow> v | None \<Rightarrow> Undefined))"

text \<open>An array index is the canonical decimal form of a number below \<open>2^32 - 1\<close>. The
  keys of an object are enumerated with the array indices first, in ascending order, and
  the other keys after them, in the order of their creation.\<close>

definition is_digit :: "char \<Rightarrow> bool" where
  "is_digit c \<longleftrightarrow> c \<in> set ''0123456789''"

definition indexValue :: "string \<Rightarrow> int" where
  "indexValue s = foldl (\<lambda>n c. 10 * n + (of_char c - 48)) 0 s"

definition isArrayIndex :: "string \<Rightarrow> bool" where
  "isArrayIndex s \<longleftrightarrow>
     s \<noteq> [] \<and> list_all is_digit s \<and> (s = ''0'' \<or> hd s \<noteq> CHR ''0'') \<and>
     indexValue s < 4294967295"

fun replaceValue :: "(string \<times> 'a) list \<Rightarrow> string \<Rightarrow> 'a \<Rightarrow> (string \<times> 'a) list" where
  "replaceValue [] k v = []"
| "replaceValue ((k', v') # ps) k v =
     (if k' = k then (k, v) # ps else (k', v') # replaceValue ps k v)"

fun insertIndex :: "(string \<times> 'a) list \<Rightarrow> string \<Rightarrow> 'a \<Rightarrow> (string \<times> 'a) list" where
  "insertIndex [] k v = [(k, v)]"
| "insertIndex ((k', v') # ps) k v =
     (if isArrayIndex k' \<and> indexValue k' < indexValue k
      then (k', v') # insertIndex ps k v
      else (k, v) # (k', v') # ps)"

text \<open>Defining the own property \<open>k\<close> (a member of an object literal, of a spread, of
  \<open>JSON.parse\<close>): an existing key keeps its place, a new key takes the place the
  enumeration order gives it.\<close>

definition defineProperty :: "(string \<times> 'a) list \<Rightarrow> string \<Rightarrow> 'a \<Rightarrow> (string \<times> 'a) list" where
  "defineProperty ps k v =
     (if k \<in> set (map fst ps) then replaceValue ps k v
      else if isArrayIndex k then insertIndex ps k v
      else ps @ [(k, v)])"

text \<open>The assignment \<open>o[k] = v\<close> to a plain object without an own \<open>__proto__\<close>: the
  name \<open>__proto__\<close> reaches the inherited setter, which changes the prototype or does
  nothing, and creates no own property; any other name defines the own property.\<close>

definition assignProperty :: "(string \<times> 'a) list \<Rightarrow> string \<Rightarrow> 'a \<Rightarrow> (string \<times> 'a) list" where
  "assignProperty ps k v = (if k = ''__proto__'' then ps else defineProperty ps k v)"

subsection \<open>\<open>String(v)\<close> and \<open>Boolean(v)\<close>\<close>

fun ToString :: "'n platform \<Rightarrow> 'n jsvalue \<Rightarrow> string" where
  "ToString P Undefined = ''undefined''"
| "ToString P Null = ''null''"
| "ToString P (Bool b) = (if b then ''true'' else ''false'')"
| "ToString P (Num n) = numberToString P n"
| "ToString P (Str s) = s"
| "ToString P (Arr xs) =
     join '','' (map (\<lambda>x. if x = Undefined \<or> x = Null then [] else ToString P x) xs)"
| "ToString P (Obj ps) = ''[object Object]''"
| "ToString P (Fun s) = s"

fun ToBoolean :: "'n platform \<Rightarrow> 'n jsvalue \<Rightarrow> bool" where
  "ToBoolean P Undefined = False"
| "ToBoolean P Null = False"
| "ToBoolean P (Bool b) = b"
| "ToBoolean P (Num n) = numberToBoolean P n"
| "ToBoolean P (Str s) = (s \<noteq> [])"
| "ToBoolean P (Arr xs) = True"
| "ToBoolean P (Obj ps) = True"
| "ToBoolean P (Fun s) = True"

text \<open>\<open>typeof v === "string"\<close>, \<open>Array.isArray(v)\<close>, \<open>typeof v === "object"\<close> for
  a value that is neither \<open>null\<close> nor an array, and the elements of an array.\<close>

fun isString :: "'n jsvalue \<Rightarrow> bool" where
  "isString (Str s) = True"
| "isString _ = False"

fun isArray :: "'n jsvalue \<Rightarrow> bool" where
  "isArray (Arr xs) = True"
| "isArray _ = False"

fun isObject :: "'n jsvalue \<Rightarrow> bool" where
  "isObject (Obj ps) = True"
| "isObject _ = False"

fun elements :: "'n jsvalue \<Rightarrow> 'n jsvalue list" where
  "elements (Arr xs) = xs"
| "elements _ = []"

subsection \<open>\<open>JSON.stringify\<close>\<close>

definition hex_lower :: "nat \<Rightarrow> char" where
  "hex_lower d = ''0123456789abcdef'' ! (d mod 16)"

definition hex_upper :: "nat \<Rightarrow> char" where
  "hex_upper d = ''0123456789ABCDEF'' ! (d mod 16)"

text \<open>The escapes of \<open>QuoteJSONString\<close>: the quote, the backslash and the control
  characters; every other byte stands for itself.\<close>

definition json_escape :: "char \<Rightarrow> string" where
  "json_escape c =
     (if c = CHR 0x08 then [CHR 0x5C, CHR ''b'']
      else if c = CHR 0x09 then [CHR 0x5C, CHR ''t'']
      else if c = CHR 0x0A then [CHR 0x5C, CHR ''n'']
      else if c = CHR 0x0C then [CHR 0x5C, CHR ''f'']
      else if c = CHR 0x0D then [CHR 0x5C, CHR ''r'']
      else if c = CHR 0x22 then [CHR 0x5C, CHR 0x22]
      else if c = CHR 0x5C then [CHR 0x5C, CHR 0x5C]
      else if (of_char c :: nat) < 32
        then [CHR 0x5C, CHR ''u'', CHR ''0'', CHR ''0'',
              hex_lower (of_char c div 16), hex_lower (of_char c mod 16)]
      else [c])"

definition json_quote :: "string \<Rightarrow> string" where
  "json_quote s = [CHR 0x22] @ concat (map json_escape s) @ [CHR 0x22]"

text \<open>A number that is not finite is serialised as \<open>null\<close>; those are the numbers
  \<open>toString\<close> prints as \<open>NaN\<close>, \<open>Infinity\<close> and \<open>-Infinity\<close>.\<close>

definition json_number :: "'n platform \<Rightarrow> 'n \<Rightarrow> string" where
  "json_number P n =
     (let s = numberToString P n
      in if s = ''NaN'' \<or> s = ''Infinity'' \<or> s = ''-Infinity'' then ''null'' else s)"

text \<open>\<open>JSON_stringify P v\<close> is \<open>None\<close> where \<open>JSON.stringify\<close> returns \<open>undefined\<close>,
  as it does for \<open>undefined\<close> and for a function. An array prints such an element as
  \<open>null\<close>; an object leaves a property out whose value is such.\<close>

fun JSON_stringify :: "'n platform \<Rightarrow> 'n jsvalue \<Rightarrow> string option"
  and json_elements :: "'n platform \<Rightarrow> 'n jsvalue list \<Rightarrow> string list"
  and json_members :: "'n platform \<Rightarrow> (string \<times> 'n jsvalue) list \<Rightarrow> string list"
where
  "JSON_stringify P Undefined = None"
| "JSON_stringify P Null = Some ''null''"
| "JSON_stringify P (Bool b) = Some (if b then ''true'' else ''false'')"
| "JSON_stringify P (Num n) = Some (json_number P n)"
| "JSON_stringify P (Str s) = Some (json_quote s)"
| "JSON_stringify P (Arr xs) = Some (''['' @ join '','' (json_elements P xs) @ '']'')"
| "JSON_stringify P (Obj ps) = Some (''{'' @ join '','' (json_members P ps) @ ''}'')"
| "JSON_stringify P (Fun s) = None"
| "json_elements P [] = []"
| "json_elements P (x # xs) =
     (case JSON_stringify P x of None \<Rightarrow> ''null'' | Some s \<Rightarrow> s) # json_elements P xs"
| "json_members P [] = []"
| "json_members P ((k, v) # ps) =
     (case JSON_stringify P v of
        None \<Rightarrow> json_members P ps
      | Some s \<Rightarrow> (json_quote k @ '':'' @ s) # json_members P ps)"

text \<open>A value of type \<open>string | undefined\<close> used where a string is expected.\<close>

definition string_of :: "string option \<Rightarrow> string" where
  "string_of s = (case s of None \<Rightarrow> ''undefined'' | Some t \<Rightarrow> t)"

subsection \<open>\<open>encodeURIComponent\<close>\<close>

definition uri_unreserved :: "char \<Rightarrow> bool" where
  "uri_unreserved c \<longleftrightarrow>
     c \<in> set ''ABCDEFGHIJKLMNOPQRSTUVWXYZabcdefghijklmnopqrstuvwxyz0123456789-_.!~*()''
     \<or> c = CHR 0x27"

definition encode_byte :: "char \<Rightarrow> string" where
  "encode_byte c =
     (if uri_unreserved c then [c]
      else [CHR ''%'', hex_upper (of_char c div 16), hex_upper (of_char c mod 16)])"

definition encodeURIComponent :: "string \<Rightarrow> string" where
  "encodeURIComponent s = concat (map encode_byte s)"

section \<open>The remote client\<close>

subsection \<open>\<open>buildQueryString\<close>\<close>

definition missing :: "'n jsvalue \<Rightarrow> bool" where
  "missing v \<longleftrightarrow> v = Undefined \<or> v = Null \<or> v = Str []"

fun validateRequired ::
  "'n platform \<Rightarrow> (string \<times> 'n jsvalue) list \<Rightarrow> string list \<Rightarrow> thrown option" where
  "validateRequired P params [] = None"
| "validateRequired P params (param # rest) =
     (if missing (prop_get P params param)
      then Some (Error (''Query parameter '' @ [CHR 0x27] @ param @ [CHR 0x27] @ '' is required.''))
      else validateRequired P params rest)"

text \<open>The loop over \<open>Object.entries(params)\<close>: the strings pushed to
  \<open>queryParams\<close>, in order. On the scalars that reach the last branch,
  \<open>value.toString()\<close> is \<open>String(value)\<close>.\<close>

fun queryParams :: "'n platform \<Rightarrow> (string \<times> 'n jsvalue) list \<Rightarrow> string list" where
  "queryParams P [] = []"
| "queryParams P ((key, v) # rest) =
     (if v = Undefined \<or> v = Null then queryParams P rest
      else if isArray v
        then (if length (elements v) > 0
              then (encodeURIComponent key @ ''='' @
                    encodeURIComponent (string_of (JSON_stringify P v))) # queryParams P rest
              else queryParams P rest)
      else if isObject v
        then (encodeURIComponent key @ ''='' @
              encodeURIComponent (string_of (JSON_stringify P v))) # queryParams P rest
      else if v \<noteq> Str []
        then (encodeURIComponent key @ ''='' @
              encodeURIComponent (ToString P v)) # queryParams P rest
      else queryParams P rest)"

definition buildQueryString ::
  "'n platform \<Rightarrow> (string \<times> 'n jsvalue) list \<Rightarrow> string list \<Rightarrow> thrown + string" where
  "buildQueryString P params requiredParams =
     (case validateRequired P params requiredParams of
        Some e \<Rightarrow> Inl e
      | None \<Rightarrow>
          (let qs = queryParams P params
           in Inr (if length qs > 0 then ''?'' @ join ''&'' qs else [])))"

subsection \<open>Field schemas\<close>

text \<open>Modelled from the spec: the declarations \<open>FieldSchemaVO\<close> and
  \<open>SelectFieldOptionVO\<close> of \<open>types.ts\<close>, which is not among the sources. A field
  schema is \<open>{name, type, property?}\<close>; the type is a string tag; the property, when
  present, may hold \<open>options\<close>, a list of \<open>{id, name}\<close>, and \<open>max\<close>. This is also
  how the code uses them.\<close>

record SelectFieldOptionVO =
  id' :: string
  name' :: string

record 'n FieldProperty =
  options :: "SelectFieldOptionVO list option"
  max' :: "'n jsvalue option"

record 'n FieldSchemaVO =
  name :: string
  type :: string
  property :: "'n FieldProperty option"

subsection \<open>\<open>_getKeywordByFieldType\<close>\<close>

definition ratingDescription :: "'n platform \<Rightarrow> 'n FieldSchemaVO \<Rightarrow> string" where
  "ratingDescription P field =
     (case property field of
        None \<Rightarrow> []
      | Some p \<Rightarrow>
          (case max' p of
             None \<Rightarrow> []
           | Some m \<Rightarrow>
               ''Rating from 0 to '' @ ToString P m @ ''. if over '' @ ToString P m @
               '', reduce to '' @ ToString P m))"

text \<open>\<open>field.property?.options?.map(option => option.name)\<close>\<close>

definition optionNames :: "'n FieldSchemaVO \<Rightarrow> 'n jsvalue" where
  "optionNames field =
     (case property field of
        None \<Rightarrow> Undefined
      | Some p \<Rightarrow>
          (case options p of
             None \<Rightarrow> Undefined
           | Some os \<Rightarrow> Arr (map (\<lambda>option. Str (name' option)) os)))"

text \<open>The inner \<open>if\<close> of the MultiSelect case: it returns only when the property
  holds \<open>options\<close>.\<close>

definition multiSelectKeyword :: "'n FieldSchemaVO \<Rightarrow> 'n jsvalue option" where
  "multiSelectKeyword field =
     (case property field of
        None \<Rightarrow> None
      | Some p \<Rightarrow>
          (case options p of
             None \<Rightarrow> None
           | Some os \<Rightarrow>
               Some (Obj [(''type'', Str ''array''),
                          (''items'', Obj [(''type'', Str ''string''),
                                           (''enum'', Arr (map (\<lambda>option. Str (name' option)) os)),
                                           (''description'', Str ''one or more selections'')])])))"

definition attachmentKeyword :: "'n jsvalue" where
  "attachmentKeyword =
     Obj [(''type'', Str ''array''),
          (''items'', Obj [(''properties'', Obj [
              (''token'', Obj [(''type'', Str ''string'')]),
              (''name'', Obj [(''type'', Str ''string'')]),
              (''mimeType'', Obj [(''type'', Str ''string'')]),
              (''url'', Obj [(''type'', Str ''string'')]),
              (''size'', Obj [(''type'', Str ''number'')]),
              (''height'', Obj [(''type'', Str ''number''), (''nullable'', Bool True)]),
              (''width'', Obj [(''type'', Str ''number''), (''nullable'', Bool True)])])])]"

text \<open>The result is \<open>None\<close> where the source returns \<open>null\<close>. The first list holds
  \<open>"Email "\<close>, with a space after the word, as the source does.\<close>

definition getKeywordByFieldType :: "'n platform \<Rightarrow> 'n FieldSchemaVO \<Rightarrow> 'n jsvalue option" where
  "getKeywordByFieldType P field =
     (if type field \<in> set [''Text'', ''SingleText'', ''Email '', ''URL'', ''Phone'']
        then Some (Obj [(''type'', Str ''string'')])
      else if type field = ''Checkbox''
        then Some (Obj [(''type'', Str ''boolean'')])
      else if type field \<in> set [''Number'', ''Currency'', ''Percent'']
        then Some (Obj [(''type'', Str ''number'')])
      else if type field = ''Rating''
        then Some (Obj [(''type'', Str ''integer''),
                        (''description'', Str (ratingDescription P field))])
      else if type field = ''DateTime''
        then Some (Obj [(''type'', Str ''string''),
                        (''description'', Str
                          ''ISO 8601 date-time format, with UTC timezone. Example: 2022-01-01T12:00:00Z'')])
      else if type field = ''SingleSelect''
        then Some (Obj [(''type'', Str ''string''),
                        (''enum'', optionNames field),
                        (''description'', Str
                          ''Single selection from the provided options. If no options are available, return a null value.'')])
      else case (if type field = ''MultiSelect'' then multiSelectKeyword field else None) of
        Some keyword \<Rightarrow> Some keyword
      | None \<Rightarrow>
          (if type field = ''Attachment'' then Some attachmentKeyword else None))"

subsection \<open>\<open>getFieldsJSONSchema\<close>\<close>

text \<open>The two parts of \<open>schema\<close> that the loop writes.\<close>

record 'n schema =
  properties :: "(string \<times> 'n jsvalue) list"
  required :: "string list"

definition addField :: "'n platform \<Rightarrow> 'n schema \<Rightarrow> 'n FieldSchemaVO \<Rightarrow> 'n schema" where
  "addField P schema field =
     (case getKeywordByFieldType P field of
        None \<Rightarrow> schema
      | Some keywordsForField \<Rightarrow>
          schema\<lparr>properties := assignProperty (properties schema) (name field) keywordsForField,
                 required := required schema @ [name field]\<rparr>)"

definition schemaOfFields :: "'n platform \<Rightarrow> 'n FieldSchemaVO list \<Rightarrow> 'n schema" where
  "schemaOfFields P fs = foldl (addField P) \<lparr>properties = [], required = []\<rparr> fs"

definition getFieldsJSONSchema :: "'n platform \<Rightarrow> 'n FieldSchemaVO list \<Rightarrow> 'n jsvalue" where
  "getFieldsJSONSchema P fs =
     (let schema = schemaOfFields P fs
      in Obj [(''type'', Str ''json_schema''),
              (''json_schema'', Obj [
                 (''name'', Str ''fields_in_datasheet''),
                 (''schema'', Obj [
                    (''type'', Str ''object''),
                    (''properties'', Obj (properties schema)),
                    (''additionalProperties'', Bool False),
                    (''required'', Arr (map Str (required schema)))]),
                 (''strict'', Bool True)])])"

text \<open>Reading a generated document: \<open>doc.json_schema.schema[k]\<close>.\<close>

definition member_of :: "'n jsvalue \<Rightarrow> string \<Rightarrow> 'n jsvalue" where
  "member_of v k = (case v of Obj ps \<Rightarrow> obj_get ps k | _ \<Rightarrow> Undefined)"

definition schemaPart :: "'n jsvalue \<Rightarrow> string \<Rightarrow> 'n jsvalue" where
  "schemaPart doc k = member_of (member_of (member_of doc ''json_schema'') ''schema'') k"

definition keys_of :: "'n jsvalue \<Rightarrow> string list" where
  "keys_of v = (case v of Obj ps \<Rightarrow> map fst ps | _ \<Rightarrow> [])"

subsection \<open>\<open>Date.prototype.toISOString\<close>\<close>

definition digit_char :: "nat \<Rightarrow> char" where
  "digit_char d = ''0123456789'' ! (d mod 10)"

text \<open>\<open>pad w n\<close>: the last \<open>w\<close> decimal digits of \<open>n\<close>.\<close>

fun pad :: "nat \<Rightarrow> nat \<Rightarrow> string" where
  "pad 0 n = []"
| "pad (Suc w) n = pad w (n div 10) @ [digit_char n]"

text \<open>Year, month and day of the month of a day number counted from 1970-01-01, in the
  proleptic Gregorian calendar.\<close>

definition civil_from_days :: "int \<Rightarrow> int \<times> int \<times> int" where
  "civil_from_days day =
     (let z = day + 719468;
          era = z div 146097;
          doe = z mod 146097;
          yoe = (doe - doe div 1460 + doe div 36524 - doe div 146096) div 365;
          doy = doe - (365 * yoe + yoe div 4 - yoe div 100);
          mp = (5 * doy + 2) div 153;
          d = doy - (153 * mp + 2) div 5 + 1;
          m = (if mp < 10 then mp + 3 else mp - 9);
          y = yoe + era * 400 + (if m \<le> 2 then 1 else 0)
      in (y, m, d))"

definition yearString :: "int \<Rightarrow> string" where
  "yearString y =
     (if 0 \<le> y \<and> y \<le> 9999 then pad 4 (nat y)
      else (if y < 0 then ''-'' else ''+'') @ pad 6 (nat \<bar>y\<bar>))"

definition toISOString :: "int \<Rightarrow> string" where
  "toISOString t =
     (let ms = t mod 86400000;
          (y, m, d) = civil_from_days (t div 86400000)
      in yearString y @ ''-'' @ pad 2 (nat m) @ ''-'' @ pad 2 (nat d) @ ''T'' @
         pad 2 (nat (ms div 3600000)) @ '':'' @ pad 2 (nat (ms div 60000 mod 60)) @ '':'' @
         pad 2 (nat (ms div 1000 mod 60)) @ ''.'' @ pad 3 (nat (ms mod 1000)) @ ''Z'')"

subsection \<open>\<open>_getCellValueByFieldType\<close> and \<open>convertFieldValuesToCellFormat\<close>\<close>

text \<open>\<open>(field.property?.options)?.find(option => option.name === v)\<close>: strict equality
  holds only for a string equal to the name.\<close>

definition findOption :: "'n FieldSchemaVO \<Rightarrow> 'n jsvalue \<Rightarrow> SelectFieldOptionVO option" where
  "findOption field v =
     (case property field of
        None \<Rightarrow> None
      | Some p \<Rightarrow>
          (case options p of
             None \<Rightarrow> None
           | Some os \<Rightarrow> find (\<lambda>option. Str (name' option) = v) os))"

definition optionIdOrNull :: "'n FieldSchemaVO \<Rightarrow> 'n jsvalue \<Rightarrow> 'n jsvalue" where
  "optionIdOrNull field optionName =
     (case findOption field optionName of
        Some option \<Rightarrow> Str (id' option)
      | None \<Rightarrow> Null)"

text \<open>\<open>new Date(s).toISOString()\<close>, which throws a \<open>RangeError\<close> on an invalid date.\<close>

definition dateToISOString :: "'n platform \<Rightarrow> string \<Rightarrow> thrown + string" where
  "dateToISOString P s =
     (case dateParse P s of
        None \<Rightarrow> Inl (Error ''Invalid time value'')
      | Some t \<Rightarrow> Inr (toISOString t))"

definition getCellValueByFieldType ::
  "'n platform \<Rightarrow> 'n FieldSchemaVO \<Rightarrow> 'n jsvalue \<Rightarrow> thrown + 'n jsvalue" where
  "getCellValueByFieldType P field fieldValue =
     (if type field = ''Text'' \<or> type field = ''SingleText'' \<or> type field = ''Email'' \<or>
         type field = ''URL'' \<or> type field = ''Phone'' \<or> type field = ''SingleSelect''
        then Inr (Str (ToString P fieldValue))
      else if type field = ''Checkbox''
        then Inr (Bool (ToBoolean P fieldValue))
      else if type field \<in> set [''Number'', ''Currency'', ''Percent'', ''Rating'']
        then Inr (Num (toNumber P fieldValue))
      else if type field = ''DateTime'' \<and> isString fieldValue
        then (if fieldValue \<noteq> Str []
              then (case dateToISOString P (ToString P fieldValue) of
                      Inl e \<Rightarrow> Inl e
                    | Inr isoText \<Rightarrow> Inr (Str isoText))
              else Inr Null)
      else if type field = ''MultiSelect''
        then (if isArray fieldValue
              then Inr (Arr (filter (\<lambda>id. id \<noteq> Null)
                               (map (optionIdOrNull field) (elements fieldValue))))
              else if isString fieldValue
                then (case findOption field fieldValue of
                        Some option \<Rightarrow> Inr (Arr [Str (id' option)])
                      | None \<Rightarrow> Inr (Arr []))
              else Inr Null)
      else Inr Null)"

fun convertFields ::
  "'n platform \<Rightarrow> 'n FieldSchemaVO list \<Rightarrow> (string \<times> 'n jsvalue) list \<Rightarrow>
   (string \<times> 'n jsvalue) list \<Rightarrow> thrown + (string \<times> 'n jsvalue) list" where
  "convertFields P [] fieldValues cells = Inr cells"
| "convertFields P (fieldschema # rest) fieldValues cells =
     (let fieldValue = prop_get P fieldValues (name fieldschema)
      in if fieldValue \<noteq> Undefined
         then (case getCellValueByFieldType P fieldschema fieldValue of
                 Inl e \<Rightarrow> Inl e
               | Inr cellValue \<Rightarrow>
                   (if cellValue \<noteq> Null
                    then convertFields P rest fieldValues
                           (assignProperty cells (name fieldschema) cellValue)
                    else convertFields P rest fieldValues cells))
         else convertFields P rest fieldValues cells)"

definition convertFieldValuesToCellFormat ::
  "'n platform \<Rightarrow> 'n FieldSchemaVO list \<Rightarrow> (string \<times> 'n jsvalue) list \<Rightarrow>
   thrown + (string \<times> 'n jsvalue) list" where
  "convertFieldValuesToCellFormat P fieldsSchema fieldValues =
     convertFields P fieldsSchema fieldValues []"

subsection \<open>Requests and responses\<close>

text \<open>
  A call of \<open>fetch\<close> is a function from the request to what the promise settles to. A
  response is what the code reads of it; \<open>json\<close>, \<open>text_body\<close> and \<open>blob\<close> are
  the results of \<open>response.json()\<close>, \<open>response.text()\<close> and \<open>response.blob()\<close>.
  Every function that calls \<open>fetch\<close> returns the requests it has issued, in order,
  beside its result.

  Modelled from the spec: the declaration \<open>ResponseVO<T>\<close> of \<open>types.ts\<close>, which is
  not among the sources: a decoded body with a \<open>success\<close> marker, a \<open>message\<close> that
  may be absent, and \<open>data\<close>. The code casts the decoded body to this type unchecked,
  and the model follows the declared type. \<open>data\<close> holds the member of the body's
  \<open>data\<close> that the call site reads (\<open>spaces\<close>, \<open>nodes\<close>, \<open>fields\<close>,
  \<open>records\<close>, or \<open>data\<close> itself), and is \<open>None\<close> for a body without \<open>data\<close>.
\<close>

datatype request_body = NoBody | TextBody string | FormDataFile string string

record request =
  url :: string
  http_method :: string
  headers :: "(string \<times> string) list"
  body :: request_body

record 'j response =
  ok :: bool
  statusText :: string
  json :: "thrown + 'j"
  text_body :: "thrown + string"
  blob :: "thrown + string"

record 'd ResponseVO =
  success :: bool
  message :: "string option"
  data :: "'d option"

record RequestInit =
  method' :: "string option"
  body' :: request_body
  headers' :: "(string \<times> string) list"

record ApitableService =
  apiKey :: string
  baseUrl :: string

definition GET :: RequestInit where
  "GET = \<lparr>method' = Some ''GET'', body' = NoBody, headers' = []\<rparr>"

definition fetchFromAPI ::
  "ApitableService \<Rightarrow> (request \<Rightarrow> thrown + 'd ResponseVO response) \<Rightarrow> string \<Rightarrow> RequestInit \<Rightarrow>
   request list \<times> (thrown + 'd ResponseVO)" where
  "fetchFromAPI svc fetch endpoint opts =
     (let req = \<lparr>url = baseUrl svc @ endpoint,
                 http_method = (case method' opts of None \<Rightarrow> ''GET'' | Some m \<Rightarrow> m),
                 headers = foldl (\<lambda>hs (k, v). defineProperty hs k v)
                             [(''Authorization'', ''Bearer '' @ apiKey svc),
                              (''Accept'', ''application/json''),
                              (''Content-Type'', ''application/json'')]
                             (headers' opts),
                 body = body' opts\<rparr>
      in ([req],
          case fetch req of
            Inl e \<Rightarrow> Inl e
          | Inr response \<Rightarrow>
              (case json response of
                 Inl e \<Rightarrow> Inl e
               | Inr responseJson \<Rightarrow>
                   (if \<not> ok response
                    then Inl (Error (''APITable API Error: '' @ statusText response @
                                     ''. Response: '' @ string_of (message responseJson)))
                    else Inr responseJson))))"

definition getDatasheetFieldsSchema ::
  "ApitableService \<Rightarrow> (request \<Rightarrow> thrown + 'd ResponseVO response) \<Rightarrow> string \<Rightarrow>
   request list \<times> (thrown + 'd ResponseVO)" where
  "getDatasheetFieldsSchema svc fetch node_id =
     (if node_id = [] then ([], Inl (Error ''The datasheet ID (node_id) is required.''))
      else fetchFromAPI svc fetch (''/v1/datasheets/'' @ node_id @ ''/fields'') GET)"

definition createDatasheetRecord ::
  "'n platform \<Rightarrow> ApitableService \<Rightarrow> (request \<Rightarrow> thrown + 'd ResponseVO response) \<Rightarrow> string \<Rightarrow>
   (string \<times> 'n jsvalue) list \<Rightarrow> request list \<times> (thrown + 'd ResponseVO)" where
  "createDatasheetRecord P svc fetch node_id cells =
     fetchFromAPI svc fetch (''/v1/datasheets/'' @ node_id @ ''/records'')
       \<lparr>method' = Some ''POST'',
        body' = TextBody (string_of (JSON_stringify P
                  (Obj [(''records'', Arr [Obj [(''fields'', Obj cells)]])]))),
        headers' = []\<rparr>"

subsection \<open>\<open>uploadFileToSpace\<close>\<close>

text \<open>\<open>s.split(sep)\<close> for a separator of one character, and \<open>pop()\<close>, which is
  \<open>undefined\<close> on an empty array.\<close>

fun split_on :: "char \<Rightarrow> string \<Rightarrow> string list" where
  "split_on sep [] = [[]]"
| "split_on sep (c # cs) =
     (if c = sep then [] # split_on sep cs
      else (case split_on sep cs of
              [] \<Rightarrow> [[c]]
            | x # xs \<Rightarrow> (c # x) # xs))"

definition pop :: "'a list \<Rightarrow> 'a option" where
  "pop xs = (if xs = [] then None else Some (last xs))"

text \<open>The first statement of \<open>uploadFileToSpace\<close>: the file name the upload goes on
  with. \<open>now\<close> is \<open>new Date().getTime()\<close>; an invalid URL throws.\<close>

definition fileNameFor :: "'n platform \<Rightarrow> 'n \<Rightarrow> string \<Rightarrow> string option \<Rightarrow> thrown + string" where
  "fileNameFor P now file_url file_name =
     (if file_name = None \<or> file_name = Some []
      then (case urlPathname P file_url of
              None \<Rightarrow> Inl (Error ''Invalid URL'')
            | Some pathname \<Rightarrow>
                Inr (case pop (split_on CHR ''/'' pathname) of
                       None \<Rightarrow> ''file_'' @ numberToString P now
                     | Some segment \<Rightarrow> segment))
      else Inr (string_of file_name))"




section \<open>The tool dispatcher\<close>

record content_item =
  type' :: string
  mimeType :: string
  text' :: "string option"

record CallToolResult =
  content :: "content_item list"
  isError :: bool

definition formatToolResponse :: "'n platform \<Rightarrow> 'n jsvalue \<Rightarrow> bool \<Rightarrow> CallToolResult" where
  "formatToolResponse P data' isError' =
     \<lparr>content = [\<lparr>type' = ''text'', mimeType = ''application/json'',
                   text' = JSON_stringify P data'\<rparr>],
      isError = isError'\<rparr>"

text \<open>\<open>error instanceof Error ? error.message : "Unknown error occurred"\<close>\<close>

definition messageOf :: "thrown \<Rightarrow> string" where
  "messageOf error = (case error of Error m \<Rightarrow> m | NonError \<Rightarrow> ''Unknown error occurred'')"

text \<open>The \<open>catch\<close> block, the same in all six actions (the logging apart).\<close>

definition catchBlock :: "'n platform \<Rightarrow> thrown \<Rightarrow> CallToolResult" where
  "catchBlock P error =
     formatToolResponse P
       (Obj [(''success'', Bool False), (''message'', Str (messageOf error))])
       True"

text \<open>\<open>try { body } catch (error) { ... }\<close>: the body either returns a response or
  throws, after the requests it has issued.\<close>

definition tryCatch ::
  "'n platform \<Rightarrow> request list \<times> (thrown + CallToolResult) \<Rightarrow> request list \<times> CallToolResult" where
  "tryCatch P r =
     (case r of
        (reqs, Inl error) \<Rightarrow> (reqs, catchBlock P error)
      | (reqs, Inr result) \<Rightarrow> (reqs, result))"

text \<open>\<open>result.message || fallback\<close>\<close>

definition orElse :: "string option \<Rightarrow> string \<Rightarrow> string" where
  "orElse m fallback = (case m of None \<Rightarrow> fallback | Some s \<Rightarrow> if s = [] then fallback else s)"

text \<open>The \<open>TypeError\<close> of reading member \<open>k\<close> of a \<open>data\<close> that is \<open>undefined\<close>.\<close>

definition cannotRead :: "string \<Rightarrow> thrown" where
  "cannotRead k =
     Error (''Cannot read properties of undefined (reading '' @ [CHR 0x27] @ k @ [CHR 0x27] @ '')'')"

definition optional :: "string option \<Rightarrow> 'n jsvalue" where
  "optional s = (case s of None \<Rightarrow> Undefined | Some t \<Rightarrow> Str t)"

subsection \<open>\<open>list_spaces\<close>\<close>



subsection \<open>\<open>search_nodes\<close>\<close>




subsection \<open>\<open>list_records\<close>\<close>

text \<open>The handler receives the validated arguments, \<open>filterByFormula\<close> among them,
  and takes \<open>node_id\<close>, \<open>sort\<close>, \<open>pageNum\<close>, \<open>pageSize\<close>, \<open>fields\<close> and
  \<open>viewId\<close> out of them. \<open>sort\<close> is the array of its \<open>{field, order}\<close> objects.\<close>

definition list_records_endpoint ::
  "'n platform \<Rightarrow> string \<Rightarrow> 'n jsvalue list option \<Rightarrow> 'n option \<Rightarrow> 'n option \<Rightarrow>
   string option \<Rightarrow> string option \<Rightarrow> thrown + string" where
  "list_records_endpoint P node_id sort' pageNum pageSize fields' viewId =
     (case buildQueryString P
             [(''sort'', case sort' of None \<Rightarrow> Undefined | Some xs \<Rightarrow> Arr xs),
              (''pageNum'', case pageNum of None \<Rightarrow> Undefined | Some n \<Rightarrow> Num n),
              (''pageSize'', case pageSize of None \<Rightarrow> Undefined | Some n \<Rightarrow> Num n),
              (''fields'', optional fields'),
              (''viewId'', optional viewId),
              (''cellFormat'', Str ''string''),
              (''fieldKey'', Str ''name'')] [] of
        Inl e \<Rightarrow> Inl e
      | Inr queryStr \<Rightarrow> Inr (''/datasheets/'' @ node_id @ ''/records'' @ queryStr))"

definition list_records_body ::
  "'n platform \<Rightarrow> ApitableService \<Rightarrow> (request \<Rightarrow> thrown + 'n jsvalue ResponseVO response) \<Rightarrow>
   string \<Rightarrow> 'n jsvalue list option \<Rightarrow> 'n option \<Rightarrow> 'n option \<Rightarrow>
   string option \<Rightarrow> string option \<Rightarrow> string option \<Rightarrow>
   request list \<times> (thrown + CallToolResult)" where
  "list_records_body P svc fetch node_id sort' pageNum pageSize fields' viewId filterByFormula =
     (if node_id = [] then ([], Inl (Error ''datasheet ID is required.''))
      else case list_records_endpoint P node_id sort' pageNum pageSize fields' viewId of
        Inl e \<Rightarrow> ([], Inl e)
      | Inr endpoint \<Rightarrow>
          (case fetchFromAPI svc fetch endpoint GET of
             (reqs, Inl e) \<Rightarrow> (reqs, Inl e)
           | (reqs, Inr result) \<Rightarrow>
               (if \<not> success result
                then (reqs, Inl (Error (orElse (message result) ''Failed to list records'')))
                else (reqs, Inr (formatToolResponse P
                        (Obj [(''success'', Bool True),
                              (''data'', case data result of None \<Rightarrow> Undefined | Some d \<Rightarrow> d)])
                        False)))))"

definition list_records ::
  "'n platform \<Rightarrow> ApitableService \<Rightarrow> (request \<Rightarrow> thrown + 'n jsvalue ResponseVO response) \<Rightarrow>
   string \<Rightarrow> 'n jsvalue list option \<Rightarrow> 'n option \<Rightarrow> 'n option \<Rightarrow>
   string option \<Rightarrow> string option \<Rightarrow> string option \<Rightarrow> request list \<times> CallToolResult" where
  "list_records P svc fetch node_id sort' pageNum pageSize fields' viewId filterByFormula =
     tryCatch P
       (list_records_body P svc fetch node_id sort' pageNum pageSize fields' viewId filterByFormula)"

subsection \<open>\<open>get_fields_schema\<close>\<close>



subsection \<open>\<open>create_record\<close>\<close>

text \<open>The loop over the schema that lays the attachment arrays over the cells.\<close>

definition overlayAttachments ::
  "'n platform \<Rightarrow> 'n FieldSchemaVO list \<Rightarrow> (string \<times> 'n jsvalue) list \<Rightarrow>
   (string \<times> 'n jsvalue) list \<Rightarrow> (string \<times> 'n jsvalue) list" where
  "overlayAttachments P fieldsSchema attachments_fields cells =
     foldl (\<lambda>cells fieldschema.
              (let fieldValue = prop_get P attachments_fields (name fieldschema)
               in if fieldValue \<noteq> Undefined
                  then assignProperty cells (name fieldschema) fieldValue
                  else cells))
           cells fieldsSchema"

text \<open>\<open>fetchFields\<close> and \<open>fetchRecords\<close> are the one \<open>fetch\<close> of the service, at
  the two types the action casts its responses to.\<close>

definition create_record_body ::
  "'n platform \<Rightarrow> ApitableService \<Rightarrow>
   (request \<Rightarrow> thrown + 'n FieldSchemaVO list ResponseVO response) \<Rightarrow>
   (request \<Rightarrow> thrown + 'n jsvalue ResponseVO response) \<Rightarrow>
   string \<Rightarrow> (string \<times> 'n jsvalue) list option \<Rightarrow> (string \<times> 'n jsvalue) list option \<Rightarrow>
   request list \<times> (thrown + CallToolResult)" where
  "create_record_body P svc fetchFields fetchRecords node_id fields' attachments_fields =
     (if node_id = [] then ([], Inl (Error ''The datasheet ID (node_id) is required.''))
      else if fields' = None \<and> attachments_fields = None
        then ([], Inl (Error
               (''At least one of '' @ [CHR 0x27] @ ''fields'' @ [CHR 0x27] @ '' or '' @
                [CHR 0x27] @ ''attachments_fields'' @ [CHR 0x27] @ '' must be provided.'')))
      else case getDatasheetFieldsSchema svc fetchFields node_id of
        (reqs, Inl e) \<Rightarrow> (reqs, Inl e)
      | (reqs, Inr getFieldsResult) \<Rightarrow>
          (if \<not> success getFieldsResult
           then (reqs, Inl (Error (orElse (message getFieldsResult)
                                     ''Failed to fetch datasheet fields schema'')))
           else case data getFieldsResult of
             None \<Rightarrow> (reqs, Inl (cannotRead ''fields''))
           | Some fieldsSchema \<Rightarrow>
               (case (case fields' of
                        None \<Rightarrow> Inr []
                      | Some fieldValues \<Rightarrow>
                          convertFieldValuesToCellFormat P fieldsSchema fieldValues) of
                  Inl e \<Rightarrow> (reqs, Inl e)
                | Inr converted \<Rightarrow>
                    (let cells = (case attachments_fields of
                                    None \<Rightarrow> converted
                                  | Some af \<Rightarrow> overlayAttachments P fieldsSchema af converted)
                     in case createDatasheetRecord P svc fetchRecords node_id cells of
                          (reqs', Inl e) \<Rightarrow> (reqs @ reqs', Inl e)
                        | (reqs', Inr createRecordResult) \<Rightarrow>
                            (if \<not> success createRecordResult
                             then (reqs @ reqs',
                                   Inl (Error (orElse (message createRecordResult)
                                                 ''Failed to create record'')))
                             else case data createRecordResult of
                               None \<Rightarrow> (reqs @ reqs', Inl (cannotRead ''records''))
                             | Some records \<Rightarrow>
                                 (reqs @ reqs',
                                  Inr (formatToolResponse P
                                         (Obj [(''success'', Bool True),
                                               (''data'', Obj [(''records'', records)])])
                                         False)))))))"

definition create_record ::
  "'n platform \<Rightarrow> ApitableService \<Rightarrow>
   (request \<Rightarrow> thrown + 'n FieldSchemaVO list ResponseVO response) \<Rightarrow>
   (request \<Rightarrow> thrown + 'n jsvalue ResponseVO response) \<Rightarrow>
   string \<Rightarrow> (string \<times> 'n jsvalue) list option \<Rightarrow> (string \<times> 'n jsvalue) list option \<Rightarrow>
   request list \<times> CallToolResult" where
  "create_record P svc fetchFields fetchRecords node_id fields' attachments_fields =
     tryCatch P
       (create_record_body P svc fetchFields fetchRecords node_id fields' attachments_fields)"

subsection \<open>\<open>upload_attachment_via_url\<close>\<close>



section \<open>A sample platform\<close>

text \<open>A platform to run the definitions on concrete inputs: numbers are integers
  printed in decimal, dates and URLs are answered for the inputs of the examples
  below, as Node answers them, and the inherited members are those of Node's
  \<open>Object.prototype\<close>.\<close>

fun decimal :: "nat \<Rightarrow> string" where
  "decimal n = (if n < 10 then [digit_char n] else decimal (n div 10) @ [digit_char (n mod 10)])"

definition samplePlatform :: "int platform" where
  "samplePlatform =
     \<lparr>numberToString = (\<lambda>n. if n < 0 then ''-'' @ decimal (nat (- n)) else decimal (nat n)),
      numberToBoolean = (\<lambda>n. n \<noteq> 0),
      toNumber = (\<lambda>v. case v of Num n \<Rightarrow> n | Bool True \<Rightarrow> 1 | _ \<Rightarrow> 0),
      dateParse = (\<lambda>s. if s = ''2024-01-01'' then Some 1704067200000 else None),
      urlPathname = (\<lambda>u. if u = ''https://example.com/'' then Some ''/''
                          else if u = ''https://example.com/a/b.png'' then Some ''/a/b.png''
                          else None),
      objectPrototype = (\<lambda>k. if k = ''__proto__'' then Some (Obj [])
                              else if k = ''constructor''
                                then Some (Fun ''function Object() { [native code] }'')
                              else if k \<in> set [''toString'', ''toLocaleString'', ''valueOf'',
                                                ''hasOwnProperty'', ''isPrototypeOf'',
                                                ''propertyIsEnumerable'', ''__defineGetter__'',
                                                ''__defineSetter__'', ''__lookupGetter__'',
                                                ''__lookupSetter__'']
                                then Some (Fun (''function '' @ k @ ''() { [native code] }''))
                              else None)\<rparr>"

section \<open>The vocabulary of the specification\<close>

text \<open>The definitions of this section follow the words of the specification; the
  theorems compare them with the definitions above, which follow the code.\<close>

text \<open>An entry of \<open>params\<close> survives the filtering of \<open>buildQueryString\<close> unless its
  value is \<open>undefined\<close>, \<open>null\<close>, an empty array or the empty string.\<close>

definition survives :: "'n jsvalue \<Rightarrow> bool" where
  "survives v \<longleftrightarrow> v \<noteq> Undefined \<and> v \<noteq> Null \<and> v \<noteq> Arr [] \<and> v \<noteq> Str []"

text \<open>The \<open>key=value\<close> pair of a surviving entry: arrays and objects JSON-encoded,
  scalars stringified, key and value URL-encoded.\<close>

definition pairOf :: "'n platform \<Rightarrow> string \<times> 'n jsvalue \<Rightarrow> string" where
  "pairOf P kv =
     encodeURIComponent (fst kv) @ ''='' @
     encodeURIComponent
       (case snd kv of
          Arr xs \<Rightarrow> ''['' @ join '','' (json_elements P xs) @ '']''
        | Obj ps \<Rightarrow> ''{'' @ join '','' (json_members P ps) @ ''}''
        | v \<Rightarrow> ToString P v)"

text \<open>The supported enumeration of field types, as the specification's table lists it.\<close>

definition supportedTypes :: "string list" where
  "supportedTypes =
     [''Text'', ''SingleText'', ''Email'', ''URL'', ''Phone'', ''Checkbox'', ''Number'',
      ''Currency'', ''Percent'', ''Rating'', ''DateTime'', ''SingleSelect'', ''MultiSelect'',
      ''Attachment'']"

definition optionsOf :: "'n FieldSchemaVO \<Rightarrow> SelectFieldOptionVO list option" where
  "optionsOf field = (case property field of None \<Rightarrow> None | Some p \<Rightarrow> options p)"

text \<open>A field of a supported type, a MultiSelect one only with its options.\<close>

definition representable :: "'n FieldSchemaVO \<Rightarrow> bool" where
  "representable field \<longleftrightarrow>
     type field \<in> set supportedTypes \<and>
     (type field \<noteq> ''MultiSelect'' \<or> optionsOf field \<noteq> None)"

text \<open>The identifier of the first option that bears a name, if any.\<close>

definition idOfName :: "SelectFieldOptionVO list option \<Rightarrow> string \<Rightarrow> string option" where
  "idOfName os n =
     (case os of
        None \<Rightarrow> None
      | Some opts \<Rightarrow> map_option id' (find (\<lambda>option. name' option = n) opts))"

text \<open>The response that decodes to \<open>{success: false, message: m}\<close>, flagged as an
  error: its text is the JSON text of that object, which has no \<open>data\<close> member.\<close>

definition errorEnvelope :: "string \<Rightarrow> CallToolResult" where
  "errorEnvelope m =
     \<lparr>content = [\<lparr>type' = ''text'', mimeType = ''application/json'',
                   text' = Some (''{'' @ json_quote ''success'' @ '':false,'' @
                                 json_quote ''message'' @ '':'' @ json_quote m @ ''}'')\<rparr>],
      isError = True\<rparr>"


text \<open>A remote call has failed when it threw (a transport error, an undecodable body,
  a status that is not a success) or returned a body with \<open>success: false\<close>.\<close>

definition failed :: "request list \<times> (thrown + 'd ResponseVO) \<Rightarrow> bool" where
  "failed r = (case snd r of Inl e \<Rightarrow> True | Inr result \<Rightarrow> \<not> success result)"









text \<open>The shape of an ISO-8601 date-time in UTC as \<open>toISOString\<close> prints it: in a mask,
  \<open>d\<close> stands for a digit and any other character for itself.\<close>

fun matches :: "string \<Rightarrow> string \<Rightarrow> bool" where
  "matches [] [] = True"
| "matches (m # ms) (c # cs) = ((if m = CHR ''d'' then is_digit c else c = m) \<and> matches ms cs)"
| "matches _ _ = False"

definition is_iso8601_utc :: "string \<Rightarrow> bool" where
  "is_iso8601_utc s \<longleftrightarrow>
     matches ''dddd-dd-ddTdd:dd:dd.dddZ'' s \<or>
     matches ''+dddddd-dd-ddTdd:dd:dd.dddZ'' s \<or>
     matches ''-dddddd-dd-ddTdd:dd:dd.dddZ'' s"

section \<open>Theorems\<close>

subsection \<open>The query string\<close>

lemma queryParams_append:
  "queryParams P (xs @ ys) = queryParams P xs @ queryParams P ys"
  by (induction xs) (auto split: jsvalue.splits)

lemma queryParams_pairs:
  "queryParams P params = map (pairOf P) (filter (\<lambda>kv. survives (snd kv)) params)"
proof (induction params)
  case Nil
  show ?case by simp
next
  case (Cons kv params)
  obtain k v where kv: "kv = (k, v)" by (cases kv)
  show ?case
    unfolding kv using Cons.IH
    by (cases v) (simp_all add: survives_def pairOf_def string_of_def)
qed

lemma buildQueryString_pairs:
  "buildQueryString P params [] =
     Inr (if filter (\<lambda>kv. survives (snd kv)) params = [] then []
          else ''?'' @ join ''&'' (map (pairOf P) (filter (\<lambda>kv. survives (snd kv)) params)))"
  by (simp add: buildQueryString_def Let_def queryParams_pairs)

lemma pairOf_array:
  "pairOf P (k, Arr xs) =
     encodeURIComponent k @ ''='' @
     encodeURIComponent (''['' @ join '','' (json_elements P xs) @ '']'')"
  by (simp add: pairOf_def)

text \<open>
  Claim C10. \<open>buildQueryString({})\<close> and \<open>buildQueryString({a: undefined, b: null})\<close>
  return the empty string. For every \<open>params\<close>, with no required parameters, the
  returned string is empty when no entry survives the filtering, and otherwise it is
  \<open>?\<close> followed by the \<open>key=value\<close> pairs of the surviving entries, in order, joined
  by \<open>&\<close>. An entry whose value is \<open>undefined\<close> or \<open>null\<close> is skipped, and so is an
  empty array: the string is the one returned without the entry. A non-empty array
  contributes, at its place, exactly one pair, whose value is the JSON text of the
  array, URL-encoded; a non-empty string contributes its URL-encoded self. The string is
  empty exactly when no entry survives and starts with \<open>?\<close> otherwise.
\<close>

theorem buildQueryString_filters:
  "buildQueryString P [] [] = Inr [] \<and>
   buildQueryString P [(''a'', Undefined), (''b'', Null)] [] = Inr [] \<and>
   buildQueryString P params [] =
     Inr (if filter (\<lambda>kv. survives (snd kv)) params = [] then []
          else ''?'' @ join ''&'' (map (pairOf P) (filter (\<lambda>kv. survives (snd kv)) params))) \<and>
   buildQueryString P (pre @ (k, Undefined) # post) [] = buildQueryString P (pre @ post) [] \<and>
   buildQueryString P (pre @ (k, Null) # post) [] = buildQueryString P (pre @ post) [] \<and>
   buildQueryString P (pre @ (k, Arr []) # post) [] = buildQueryString P (pre @ post) [] \<and>
   buildQueryString P (pre @ (k, Arr (x # xs)) # post) [] =
     Inr (''?'' @ join ''&''
            (map (pairOf P) (filter (\<lambda>kv. survives (snd kv)) pre) @
             [encodeURIComponent k @ ''='' @
              encodeURIComponent (''['' @ join '','' (json_elements P (x # xs)) @ '']'')] @
             map (pairOf P) (filter (\<lambda>kv. survives (snd kv)) post))) \<and>
   buildQueryString P [(k, Arr (x # xs))] [] =
     Inr (''?'' @ encodeURIComponent k @ ''='' @
          encodeURIComponent (''['' @ join '','' (json_elements P (x # xs)) @ '']'')) \<and>
   buildQueryString P [(k, Str (c # cs))] [] =
     Inr (''?'' @ encodeURIComponent k @ ''='' @ encodeURIComponent (c # cs)) \<and>
   queryParams P (pre @ (k, Undefined) # post) = queryParams P pre @ queryParams P post \<and>
   queryParams P (pre @ (k, Null) # post) = queryParams P pre @ queryParams P post \<and>
   queryParams P (pre @ (k, Arr []) # post) = queryParams P pre @ queryParams P post \<and>
   queryParams P (pre @ (k, Arr (x # xs)) # post) =
     queryParams P pre @
     [encodeURIComponent k @ ''='' @
      encodeURIComponent (''['' @ join '','' (json_elements P (x # xs)) @ '']'')] @
     queryParams P post \<and>
   queryParams P params = map (pairOf P) (filter (\<lambda>kv. survives (snd kv)) params) \<and>
   (\<exists>s. buildQueryString P params [] = Inr s \<and>
        (s = [] \<longleftrightarrow> filter (\<lambda>kv. survives (snd kv)) params = []) \<and>
        (s = [] \<or> take 1 s = ''?''))"
proof -
  have 1: "buildQueryString P [] [] = Inr []"
    by (simp add: buildQueryString_def)
  have 2: "buildQueryString P [(''a'', Undefined), (''b'', Null)] [] = Inr []"
    by (simp add: buildQueryString_def)
  have 3: "buildQueryString P params [] =
     Inr (if filter (\<lambda>kv. survives (snd kv)) params = [] then []
          else ''?'' @ join ''&'' (map (pairOf P) (filter (\<lambda>kv. survives (snd kv)) params)))"
    by (rule buildQueryString_pairs)
  have 4: "buildQueryString P (pre @ (k, Undefined) # post) [] = buildQueryString P (pre @ post) []"
    by (simp add: buildQueryString_def queryParams_append)
  have 5: "buildQueryString P (pre @ (k, Null) # post) [] = buildQueryString P (pre @ post) []"
    by (simp add: buildQueryString_def queryParams_append)
  have 6: "buildQueryString P (pre @ (k, Arr []) # post) [] = buildQueryString P (pre @ post) []"
    by (simp add: buildQueryString_def queryParams_append)
  have 7: "buildQueryString P (pre @ (k, Arr (x # xs)) # post) [] =
     Inr (''?'' @ join ''&''
            (map (pairOf P) (filter (\<lambda>kv. survives (snd kv)) pre) @
             [encodeURIComponent k @ ''='' @
              encodeURIComponent (''['' @ join '','' (json_elements P (x # xs)) @ '']'')] @
             map (pairOf P) (filter (\<lambda>kv. survives (snd kv)) post)))"
    by (simp add: buildQueryString_pairs survives_def pairOf_array)
  have 8: "buildQueryString P [(k, Arr (x # xs))] [] =
     Inr (''?'' @ encodeURIComponent k @ ''='' @
          encodeURIComponent (''['' @ join '','' (json_elements P (x # xs)) @ '']''))"
    by (simp add: buildQueryString_def string_of_def)
  have 9: "buildQueryString P [(k, Str (c # cs))] [] =
     Inr (''?'' @ encodeURIComponent k @ ''='' @ encodeURIComponent (c # cs))"
    by (simp add: buildQueryString_def)
  have 10: "queryParams P (pre @ (k, Undefined) # post) = queryParams P pre @ queryParams P post"
    by (simp add: queryParams_append)
  have 11: "queryParams P (pre @ (k, Null) # post) = queryParams P pre @ queryParams P post"
    by (simp add: queryParams_append)
  have 12: "queryParams P (pre @ (k, Arr []) # post) = queryParams P pre @ queryParams P post"
    by (simp add: queryParams_append)
  have 13: "queryParams P (pre @ (k, Arr (x # xs)) # post) =
     queryParams P pre @
     [encodeURIComponent k @ ''='' @
      encodeURIComponent (''['' @ join '','' (json_elements P (x # xs)) @ '']'')] @
     queryParams P post"
    by (simp add: queryParams_append string_of_def)
  have 14: "queryParams P params = map (pairOf P) (filter (\<lambda>kv. survives (snd kv)) params)"
    by (rule queryParams_pairs)
  have 15: "\<exists>s. buildQueryString P params [] = Inr s \<and>
        (s = [] \<longleftrightarrow> filter (\<lambda>kv. survives (snd kv)) params = []) \<and>
        (s = [] \<or> take 1 s = ''?'')"
    by (simp add: buildQueryString_pairs)
  show ?thesis
    by (intro conjI 1 2 3 4 5 6 7 8 9 10 11 12 13 14 15)
qed

theorem buildQueryString_filters_witness:
  "buildQueryString samplePlatform
     [(''sort'', Arr [Obj [(''field'', Str ''a b''), (''order'', Str ''asc'')]]),
      (''pageNum'', Num 1), (''x'', Undefined), (''e'', Arr []), (''s'', Str [])] [] =
   Inr ''?sort=%5B%7B%22field%22%3A%22a%20b%22%2C%22order%22%3A%22asc%22%7D%5D&pageNum=1''"
proof -
  let ?ps = "[(''sort'', Arr [Obj [(''field'', Str ''a b''), (''order'', Str ''asc'')]]),
      (''pageNum'', Num (1 :: int)), (''x'', Undefined), (''e'', Arr []), (''s'', Str [])]"
  have a: "buildQueryString samplePlatform ?ps [] =
     Inr (if filter (\<lambda>kv. survives (snd kv)) ?ps = [] then []
          else ''?'' @ join ''&'' (map (pairOf samplePlatform) (filter (\<lambda>kv. survives (snd kv)) ?ps)))"
    using buildQueryString_filters [of samplePlatform ?ps "[]" "''x''" "[]" "Null" "[]" "CHR ''a''" "[]"]
    by (elim conjE) assumption
  have b: "(if filter (\<lambda>kv. survives (snd kv)) ?ps = [] then []
          else ''?'' @ join ''&'' (map (pairOf samplePlatform) (filter (\<lambda>kv. survives (snd kv)) ?ps))) =
     ''?sort=%5B%7B%22field%22%3A%22a%20b%22%2C%22order%22%3A%22asc%22%7D%5D&pageNum=1''"
    by code_simp
  show ?thesis
    unfolding a b ..
qed

subsection \<open>The generated JSON schema\<close>

lemma keys_replaceValue: "fst ` set (replaceValue ps k v) = fst ` set ps"
proof (induction ps)
  case Nil
  show ?case by simp
next
  case (Cons a ps)
  obtain k' v' where a: "a = (k', v')" by (cases a)
  show ?case
    by (cases "k' = k") (simp_all add: Cons.IH a)
qed

lemma keys_insertIndex: "fst ` set (insertIndex ps k v) = insert k (fst ` set ps)"
  by (induction ps) force+

lemma keys_defineProperty: "fst ` set (defineProperty ps k v) = insert k (fst ` set ps)"
  by (simp add: defineProperty_def keys_replaceValue keys_insertIndex insert_absorb)

lemma keys_assignProperty:
  "fst ` set (assignProperty ps k v) = fst ` set ps \<union> ({k} - {''__proto__''})"
  by (cases "k = ''__proto__''") (simp_all add: assignProperty_def keys_defineProperty)

lemma addField_None: "getKeywordByFieldType P f = None \<Longrightarrow> addField P s f = s"
  by (simp add: addField_def)

lemma foldl_addField_required:
  "required (foldl (addField P) s fs) =
   required s @ map name (filter (\<lambda>f. getKeywordByFieldType P f \<noteq> None) fs)"
  by (induction fs arbitrary: s) (auto simp: addField_def split: option.splits)

lemma foldl_addField_keys:
  "set (map fst (properties (foldl (addField P) s fs))) =
   set (map fst (properties s)) \<union>
   (set (map name (filter (\<lambda>f. getKeywordByFieldType P f \<noteq> None) fs)) - {''__proto__''})"
proof (induction fs arbitrary: s)
  case Nil
  show ?case by simp
next
  case (Cons f fs)
  show ?case
  proof (cases "getKeywordByFieldType P f")
    case None
    then show ?thesis using Cons.IH [of s] by (simp add: addField_def)
  next
    case (Some kw)
    then show ?thesis
      using Cons.IH [of "addField P s f"]
      by (auto simp add: addField_def keys_assignProperty)
  qed
qed

lemma email_keyword: "getKeywordByFieldType P (f\<lparr>type := ''Email''\<rparr>) = None"
  by (simp add: getKeywordByFieldType_def)

lemma keyword_representable:
  assumes "type f \<noteq> ''Email''" and "type f \<noteq> ''Email ''"
  shows "getKeywordByFieldType P f \<noteq> None \<longleftrightarrow> representable f"
  using assms
  by (simp add: getKeywordByFieldType_def representable_def supportedTypes_def
      multiSelectKeyword_def optionsOf_def split: option.splits)


lemma schemaOfFields_required:
  "required (schemaOfFields P fs) = map name (filter (\<lambda>f. getKeywordByFieldType P f \<noteq> None) fs)"
  by (simp add: schemaOfFields_def foldl_addField_required)

lemma schemaOfFields_keys:
  "set (map fst (properties (schemaOfFields P fs))) =
   set (map name (filter (\<lambda>f. getKeywordByFieldType P f \<noteq> None) fs)) - {''__proto__''}"
  using foldl_addField_keys [of P "\<lparr>properties = [], required = []\<rparr>" fs]
  by (simp add: schemaOfFields_def)

lemma schemaPart_required:
  "schemaPart (getFieldsJSONSchema P fs) ''required'' = Arr (map Str (required (schemaOfFields P fs)))"
  by (simp add: schemaPart_def getFieldsJSONSchema_def member_of_def obj_get_def Let_def)

lemma schemaPart_properties:
  "schemaPart (getFieldsJSONSchema P fs) ''properties'' = Obj (properties (schemaOfFields P fs))"
  by (simp add: schemaPart_def getFieldsJSONSchema_def member_of_def obj_get_def Let_def)

lemma schemaOfFields_skip:
  "getKeywordByFieldType P f = None \<Longrightarrow>
   schemaOfFields P (pre @ f # post) = schemaOfFields P (pre @ post)"
  by (simp add: schemaOfFields_def addField_None)

text \<open>
  Claim C1, as the code has it. The claim says that a field whose type tag is \<open>Email\<close>
  gets the fragment \<open>{type: "string"}\<close> and that its name is in \<open>properties\<close> and
  \<open>required\<close>. The list the code tests the tag against holds \<open>"Email "\<close>, so for
  every field with the tag \<open>Email\<close> the fragment is \<open>null\<close>, the generated document is
  the one generated without the field, and a datasheet of that field alone has empty
  \<open>properties\<close> and \<open>required\<close>.
\<close>

theorem email_field_left_out:
  "getKeywordByFieldType P (f\<lparr>type := ''Email''\<rparr>) = None \<and>
   getFieldsJSONSchema P (pre @ f\<lparr>type := ''Email''\<rparr> # post) = getFieldsJSONSchema P (pre @ post) \<and>
   schemaPart (getFieldsJSONSchema P [f\<lparr>type := ''Email''\<rparr>]) ''properties'' = Obj [] \<and>
   schemaPart (getFieldsJSONSchema P [f\<lparr>type := ''Email''\<rparr>]) ''required'' = Arr []"
proof -
  have k: "getKeywordByFieldType P (f\<lparr>type := ''Email''\<rparr>) = None"
    by (rule email_keyword)
  have s: "schemaOfFields P (pre @ f\<lparr>type := ''Email''\<rparr> # post) = schemaOfFields P (pre @ post)"
    for pre post
    by (rule schemaOfFields_skip [OF k])
  have e: "schemaOfFields P [f\<lparr>type := ''Email''\<rparr>] = \<lparr>properties = [], required = []\<rparr>"
    using s [of "[]" "[]"] by (simp add: schemaOfFields_def)
  show ?thesis
    by (simp add: k schemaPart_required schemaPart_properties e)
      (simp add: getFieldsJSONSchema_def s)
qed

theorem email_field_left_out_witness:
  "getFieldsJSONSchema samplePlatform
     [\<lparr>name = ''Contact'', type = ''Email'', property = None\<rparr>,
      \<lparr>name = ''Title'', type = ''Text'', property = None\<rparr>] =
   getFieldsJSONSchema samplePlatform [\<lparr>name = ''Title'', type = ''Text'', property = None\<rparr>] \<and>
   schemaPart (getFieldsJSONSchema samplePlatform
     [\<lparr>name = ''Contact'', type = ''Email'', property = None\<rparr>,
      \<lparr>name = ''Title'', type = ''Text'', property = None\<rparr>]) ''required'' = Arr [Str ''Title'']"
proof -
  have a: "getFieldsJSONSchema samplePlatform
     [\<lparr>name = ''Contact'', type = ''Email'', property = None\<rparr>,
      \<lparr>name = ''Title'', type = ''Text'', property = None\<rparr>] =
   getFieldsJSONSchema samplePlatform [\<lparr>name = ''Title'', type = ''Text'', property = None\<rparr>]"
    using email_field_left_out [of samplePlatform "\<lparr>name = ''Contact'', type = ''Email'', property = None\<rparr>"
        "[]" "[\<lparr>name = ''Title'', type = ''Text'', property = None\<rparr>]"]
    by simp
  have b: "schemaPart (getFieldsJSONSchema samplePlatform [\<lparr>name = ''Title'', type = ''Text'', property = None\<rparr>])
             ''required'' = Arr [Str ''Title'']"
    by code_simp
  show ?thesis using a b by simp
qed

text \<open>
  Claim C5 fails as stated: \<open>MultiSelect\<close> is in the supported enumeration, but a
  MultiSelect field without \<open>options\<close> in its property gets no fragment, so
  \<open>required\<close> is not the list of the names of the fields of supported type.
\<close>

theorem multiselect_without_options_left_out:
  "type \<lparr>name = ''Tags'', type = ''MultiSelect'', property = None\<rparr> \<in> set supportedTypes \<and>
   schemaPart (getFieldsJSONSchema samplePlatform
      [\<lparr>name = ''Tags'', type = ''MultiSelect'', property = None\<rparr>]) ''required'' = Arr [] \<and>
   schemaPart (getFieldsJSONSchema samplePlatform
      [\<lparr>name = ''Tags'', type = ''MultiSelect'', property = None\<rparr>]) ''properties'' = Obj []"
  by code_simp

lemma unsupported_keyword:
  assumes "type f \<notin> set supportedTypes" and "type f \<noteq> ''Email ''"
  shows "getKeywordByFieldType P (f\<lparr>name := n, property := pr\<rparr>) = None"
  using assms by (simp add: getKeywordByFieldType_def supportedTypes_def)

text \<open>
  Claim C5, amended. For every list of field schemas with no field whose type tag is
  \<open>Email\<close> or \<open>"Email "\<close> (the tag the code tests for in its place): \<open>required\<close> of the
  generated document is exactly the names, in input order, of the fields whose type is in
  the supported enumeration, a MultiSelect field counting only when its property holds
  \<open>options\<close>; the keys of \<open>properties\<close> are those names, the name \<open>__proto__\<close> apart,
  which an assignment does not create as a key. A field whose type is outside the
  enumeration is skipped whatever its name and its property hold: the document is the one
  generated without it.
\<close>

theorem schema_of_representable_fields:
  assumes "''Email'' \<notin> type ` set fs" and "''Email '' \<notin> type ` set fs"
  shows "schemaPart (getFieldsJSONSchema P fs) ''required'' =
           Arr (map Str (map name (filter representable fs))) \<and>
         set (keys_of (schemaPart (getFieldsJSONSchema P fs) ''properties'')) =
           set (map name (filter representable fs)) - {''__proto__''} \<and>
         (type f \<notin> set supportedTypes \<and> type f \<noteq> ''Email '' \<longrightarrow>
            getKeywordByFieldType P (f\<lparr>name := n, property := pr\<rparr>) = None \<and>
            getFieldsJSONSchema P (pre @ f\<lparr>name := n, property := pr\<rparr> # post) =
              getFieldsJSONSchema P (pre @ post))"
proof -
  have "getKeywordByFieldType P f \<noteq> None \<longleftrightarrow> representable f" if "f \<in> set fs" for f
  proof (rule keyword_representable)
    show "type f \<noteq> ''Email''" using that assms(1) by force
    show "type f \<noteq> ''Email ''" using that assms(2) by force
  qed
  then have eq: "filter (\<lambda>f. getKeywordByFieldType P f \<noteq> None) fs = filter representable fs"
    by (intro filter_cong) auto
  have req: "required (schemaOfFields P fs) = map name (filter representable fs)"
    using schemaOfFields_required [of P fs] unfolding eq .
  have keys: "set (map fst (properties (schemaOfFields P fs))) =
              set (map name (filter representable fs)) - {''__proto__''}"
    using schemaOfFields_keys [of P fs] unfolding eq .
  have 1: "schemaPart (getFieldsJSONSchema P fs) ''required'' =
           Arr (map Str (map name (filter representable fs)))"
    unfolding schemaPart_required req ..
  have 2: "set (keys_of (schemaPart (getFieldsJSONSchema P fs) ''properties'')) =
           set (map name (filter representable fs)) - {''__proto__''}"
    unfolding schemaPart_properties using keys by (simp add: keys_of_def)
  have 3: "type f \<notin> set supportedTypes \<and> type f \<noteq> ''Email '' \<longrightarrow>
            getKeywordByFieldType P (f\<lparr>name := n, property := pr\<rparr>) = None \<and>
            getFieldsJSONSchema P (pre @ f\<lparr>name := n, property := pr\<rparr> # post) =
              getFieldsJSONSchema P (pre @ post)"
  proof (intro impI, elim conjE)
    assume u: "type f \<notin> set supportedTypes" "type f \<noteq> ''Email ''"
    have k: "getKeywordByFieldType P (f\<lparr>name := n, property := pr\<rparr>) = None"
      by (rule unsupported_keyword [OF u])
    have "schemaOfFields P (pre @ f\<lparr>name := n, property := pr\<rparr> # post) = schemaOfFields P (pre @ post)"
      by (rule schemaOfFields_skip [OF k])
    then have "getFieldsJSONSchema P (pre @ f\<lparr>name := n, property := pr\<rparr> # post) =
               getFieldsJSONSchema P (pre @ post)"
      by (simp add: getFieldsJSONSchema_def)
    with k show "getKeywordByFieldType P (f\<lparr>name := n, property := pr\<rparr>) = None \<and>
            getFieldsJSONSchema P (pre @ f\<lparr>name := n, property := pr\<rparr> # post) =
              getFieldsJSONSchema P (pre @ post)" ..
  qed
  from 1 2 3 show ?thesis by (intro conjI)
qed

theorem schema_of_representable_fields_witness:
  "''Email'' \<notin> type ` set [\<lparr>name = ''Tags'', type = ''MultiSelect'', property = None\<rparr>,
       \<lparr>name = ''Title'', type = ''Text'', property = None\<rparr>,
       \<lparr>name = ''__proto__'', type = ''Checkbox'', property = None\<rparr>,
       \<lparr>name = ''Owner'', type = ''Member'', property = None\<rparr>,
       \<lparr>name = ''Kind'', type = ''MultiSelect'',
        property = Some \<lparr>options = Some [\<lparr>id' = ''o1'', name' = ''Red''\<rparr>],
                          max' = (None :: int jsvalue option)\<rparr>\<rparr>] \<and>
   ''Email '' \<notin> type ` set [\<lparr>name = ''Tags'', type = ''MultiSelect'', property = None\<rparr>,
       \<lparr>name = ''Title'', type = ''Text'', property = None\<rparr>,
       \<lparr>name = ''__proto__'', type = ''Checkbox'', property = None\<rparr>,
       \<lparr>name = ''Owner'', type = ''Member'', property = None\<rparr>,
       \<lparr>name = ''Kind'', type = ''MultiSelect'',
        property = Some \<lparr>options = Some [\<lparr>id' = ''o1'', name' = ''Red''\<rparr>],
                          max' = (None :: int jsvalue option)\<rparr>\<rparr>] \<and>
   schemaPart (getFieldsJSONSchema samplePlatform
      [\<lparr>name = ''Tags'', type = ''MultiSelect'', property = None\<rparr>,
       \<lparr>name = ''Title'', type = ''Text'', property = None\<rparr>,
       \<lparr>name = ''__proto__'', type = ''Checkbox'', property = None\<rparr>,
       \<lparr>name = ''Owner'', type = ''Member'', property = None\<rparr>,
       \<lparr>name = ''Kind'', type = ''MultiSelect'',
        property = Some \<lparr>options = Some [\<lparr>id' = ''o1'', name' = ''Red''\<rparr>], max' = None\<rparr>\<rparr>])
      ''required'' = Arr [Str ''Title'', Str ''__proto__'', Str ''Kind''] \<and>
   set (keys_of (schemaPart (getFieldsJSONSchema samplePlatform
      [\<lparr>name = ''Tags'', type = ''MultiSelect'', property = None\<rparr>,
       \<lparr>name = ''Title'', type = ''Text'', property = None\<rparr>,
       \<lparr>name = ''__proto__'', type = ''Checkbox'', property = None\<rparr>,
       \<lparr>name = ''Owner'', type = ''Member'', property = None\<rparr>,
       \<lparr>name = ''Kind'', type = ''MultiSelect'',
        property = Some \<lparr>options = Some [\<lparr>id' = ''o1'', name' = ''Red''\<rparr>], max' = None\<rparr>\<rparr>])
      ''properties'')) = {''Title'', ''Kind''}"
proof -
  let ?fs = "[\<lparr>name = ''Tags'', type = ''MultiSelect'', property = None\<rparr>,
       \<lparr>name = ''Title'', type = ''Text'', property = None\<rparr>,
       \<lparr>name = ''__proto__'', type = ''Checkbox'', property = None\<rparr>,
       \<lparr>name = ''Owner'', type = ''Member'', property = None\<rparr>,
       \<lparr>name = ''Kind'', type = ''MultiSelect'',
        property = Some \<lparr>options = Some [\<lparr>id' = ''o1'', name' = ''Red''\<rparr>],
                          max' = (None :: int jsvalue option)\<rparr>\<rparr>]"
  have h1: "''Email'' \<notin> type ` set ?fs" by simp
  have h2: "''Email '' \<notin> type ` set ?fs" by simp
  have r: "map name (filter representable ?fs) = [''Title'', ''__proto__'', ''Kind'']"
    by code_simp
  note t = schema_of_representable_fields [OF h1 h2, of samplePlatform, unfolded r]
  have 1: "schemaPart (getFieldsJSONSchema samplePlatform ?fs) ''required'' =
           Arr [Str ''Title'', Str ''__proto__'', Str ''Kind'']"
    using conjunct1 [OF t] by simp
  have 2: "set (keys_of (schemaPart (getFieldsJSONSchema samplePlatform ?fs) ''properties'')) =
           {''Title'', ''Kind''}"
    using conjunct1 [OF conjunct2 [OF t]] by auto
  from h1 h2 1 2 show ?thesis by (intro conjI)
qed

subsection \<open>\<open>list_records\<close> and \<open>filterByFormula\<close>\<close>

lemma fst_tryCatch: "fst (tryCatch P r) = fst r"
  by (simp add: tryCatch_def split: prod.splits sum.splits)

lemma urls_fetchFromAPI: "map url (fst (fetchFromAPI svc fetch endpoint opts)) = [baseUrl svc @ endpoint]"
  by (simp add: fetchFromAPI_def Let_def)

lemma fst_list_records_body:
  assumes "node_id \<noteq> []"
    and "list_records_endpoint P node_id sort' pageNum pageSize fields' viewId = Inr endpoint"
  shows "fst (list_records_body P svc fetch node_id sort' pageNum pageSize fields' viewId formula) =
         fst (fetchFromAPI svc fetch endpoint GET)"
proof (cases "fetchFromAPI svc fetch endpoint GET")
  case (Pair reqs r)
  then show ?thesis
    using assms by (cases r) (simp_all add: list_records_body_def)
qed

text \<open>
  Claim C3. Two calls of \<open>list_records\<close> whose arguments differ only in
  \<open>filterByFormula\<close> issue the same requests, character for character, and return the
  same response; and when the data sheet identifier is not empty, the one request goes to
  the endpoint built from \<open>node_id\<close> and the query string of the other five arguments,
  in which no \<open>filterByFormula\<close> occurs.
\<close>

theorem list_records_ignores_filterByFormula:
  "list_records P svc fetch node_id sort' pageNum pageSize fields' viewId formula =
   list_records P svc fetch node_id sort' pageNum pageSize fields' viewId formula' \<and>
   (node_id = [] \<or>
    (\<exists>queryStr.
       buildQueryString P
         [(''sort'', case sort' of None \<Rightarrow> Undefined | Some xs \<Rightarrow> Arr xs),
          (''pageNum'', case pageNum of None \<Rightarrow> Undefined | Some n \<Rightarrow> Num n),
          (''pageSize'', case pageSize of None \<Rightarrow> Undefined | Some n \<Rightarrow> Num n),
          (''fields'', optional fields'),
          (''viewId'', optional viewId),
          (''cellFormat'', Str ''string''),
          (''fieldKey'', Str ''name'')] [] = Inr queryStr \<and>
       map url (fst (list_records P svc fetch node_id sort' pageNum pageSize fields' viewId formula)) =
         [baseUrl svc @ ''/datasheets/'' @ node_id @ ''/records'' @ queryStr]))"
proof -
  have 1: "list_records P svc fetch node_id sort' pageNum pageSize fields' viewId formula =
           list_records P svc fetch node_id sort' pageNum pageSize fields' viewId formula'"
    by (simp add: list_records_def list_records_body_def)
  obtain q where q: "buildQueryString P
         [(''sort'', case sort' of None \<Rightarrow> Undefined | Some xs \<Rightarrow> Arr xs),
          (''pageNum'', case pageNum of None \<Rightarrow> Undefined | Some n \<Rightarrow> Num n),
          (''pageSize'', case pageSize of None \<Rightarrow> Undefined | Some n \<Rightarrow> Num n),
          (''fields'', optional fields'),
          (''viewId'', optional viewId),
          (''cellFormat'', Str ''string''),
          (''fieldKey'', Str ''name'')] [] = Inr q"
    by (simp add: buildQueryString_def Let_def)
  have 2: "map url (fst (list_records P svc fetch node_id sort' pageNum pageSize fields' viewId formula)) =
         [baseUrl svc @ ''/datasheets/'' @ node_id @ ''/records'' @ q]" if "node_id \<noteq> []"
  proof -
    have "list_records_endpoint P node_id sort' pageNum pageSize fields' viewId =
          Inr (''/datasheets/'' @ node_id @ ''/records'' @ q)"
      by (simp add: list_records_endpoint_def q)
    from fst_list_records_body [OF that this] show ?thesis
      by (simp add: list_records_def fst_tryCatch urls_fetchFromAPI)
  qed
  have 3: "node_id = [] \<or>
    (\<exists>queryStr.
       buildQueryString P
         [(''sort'', case sort' of None \<Rightarrow> Undefined | Some xs \<Rightarrow> Arr xs),
          (''pageNum'', case pageNum of None \<Rightarrow> Undefined | Some n \<Rightarrow> Num n),
          (''pageSize'', case pageSize of None \<Rightarrow> Undefined | Some n \<Rightarrow> Num n),
          (''fields'', optional fields'),
          (''viewId'', optional viewId),
          (''cellFormat'', Str ''string''),
          (''fieldKey'', Str ''name'')] [] = Inr queryStr \<and>
       map url (fst (list_records P svc fetch node_id sort' pageNum pageSize fields' viewId formula)) =
         [baseUrl svc @ ''/datasheets/'' @ node_id @ ''/records'' @ queryStr])"
  proof (cases "node_id = []")
    case True
    then show ?thesis by (rule disjI1)
  next
    case False
    show ?thesis
      by (rule disjI2, rule exI [of _ q], rule conjI, rule q, rule 2 [OF False])
  qed
  from 1 3 show ?thesis by (rule conjI)
qed

theorem list_records_ignores_filterByFormula_witness:
  "map url (fst (list_records samplePlatform \<lparr>apiKey = ''key'', baseUrl = ''https://api.test''\<rparr>
      (\<lambda>req. Inl NonError) ''dst1'' None (Some 2) None None None (Some ''{Name}=1''))) =
   [''https://api.test/datasheets/dst1/records?pageNum=2&cellFormat=string&fieldKey=name''] \<and>
   list_records samplePlatform \<lparr>apiKey = ''key'', baseUrl = ''https://api.test''\<rparr>
      (\<lambda>req. Inl NonError) ''dst1'' None (Some 2) None None None (Some ''{Name}=1'') =
   list_records samplePlatform \<lparr>apiKey = ''key'', baseUrl = ''https://api.test''\<rparr>
      (\<lambda>req. Inl NonError) ''dst1'' None (Some 2) None None None None"
proof -
  have q: "buildQueryString samplePlatform
         [(''sort'', case (None :: int jsvalue list option) of None \<Rightarrow> Undefined | Some xs \<Rightarrow> Arr xs),
          (''pageNum'', case Some 2 of None \<Rightarrow> Undefined | Some n \<Rightarrow> Num n),
          (''pageSize'', case None of None \<Rightarrow> Undefined | Some n \<Rightarrow> Num n),
          (''fields'', optional None),
          (''viewId'', optional None),
          (''cellFormat'', Str ''string''),
          (''fieldKey'', Str ''name'')] [] = Inr ''?pageNum=2&cellFormat=string&fieldKey=name''"
    by code_simp
  note t = list_records_ignores_filterByFormula [of samplePlatform
        "\<lparr>apiKey = ''key'', baseUrl = ''https://api.test''\<rparr>" "\<lambda>req. Inl NonError" "''dst1''"
        None "Some 2" None None None "Some ''{Name}=1''" None, unfolded q]
  have 1: "map url (fst (list_records samplePlatform \<lparr>apiKey = ''key'', baseUrl = ''https://api.test''\<rparr>
      (\<lambda>req. Inl NonError) ''dst1'' None (Some 2) None None None (Some ''{Name}=1''))) =
   [''https://api.test/datasheets/dst1/records?pageNum=2&cellFormat=string&fieldKey=name'']"
    using conjunct2 [OF t] by simp
  from 1 conjunct1 [OF t] show ?thesis ..
qed

subsection \<open>The file name of an upload\<close>

lemma split_on_not_Nil: "split_on sep s \<noteq> []"
  by (induction s) (auto split: list.splits)

lemma pop_split_on: "pop (split_on sep s) = Some (last (split_on sep s))"
  by (simp add: pop_def split_on_not_Nil)

text \<open>
  Claim C4, as the code has it. The claim says that, with \<open>fileName\<close> omitted and a URL
  whose path is \<open>/\<close>, the derived name is \<open>file_<timestamp>\<close>. \<open>split("/")\<close> never
  returns an empty array, so \<open>pop()\<close> is never \<open>undefined\<close> and the fallback after
  \<open>??\<close> is never taken: the derived name is the last segment of the path, which for the
  path \<open>/\<close> is the empty string.
\<close>

theorem fileName_of_root_path_is_empty:
  assumes "urlPathname P file_url = Some pathname"
  shows "fileNameFor P now file_url None = Inr (last (split_on CHR ''/'' pathname)) \<and>
         (pathname = ''/'' \<longrightarrow> fileNameFor P now file_url None = Inr [])"
  using assms by (simp add: fileNameFor_def pop_split_on) (simp add: pop_def)

theorem fileName_of_root_path_is_empty_witness:
  "urlPathname samplePlatform ''https://example.com/'' = Some ''/'' \<and>
   fileNameFor samplePlatform 1700000000000 ''https://example.com/'' None = Inr [] \<and>
   Inr [] \<noteq> (Inr (''file_'' @ numberToString samplePlatform 1700000000000) :: thrown + string)"
proof -
  have h: "urlPathname samplePlatform ''https://example.com/'' = Some ''/''"
    by (simp add: samplePlatform_def)
  show ?thesis
    using h fileName_of_root_path_is_empty [OF h, of 1700000000000] by simp
qed

subsection \<open>Cell values\<close>

lemma is_digit_digit_char: "is_digit (digit_char d)"
  unfolding digit_char_def is_digit_def by (rule nth_mem) simp

lemma pad2: "pad 2 n = [digit_char (n div 10), digit_char n]"
proof -
  have "pad (Suc (Suc 0)) n = [digit_char (n div 10), digit_char n]" by simp
  then show ?thesis by (simp only: numeral_2_eq_2)
qed

lemma pad3: "pad 3 n = [digit_char (n div 10 div 10), digit_char (n div 10), digit_char n]"
proof -
  have "pad (Suc (Suc (Suc 0))) n = [digit_char (n div 10 div 10), digit_char (n div 10), digit_char n]"
    by simp
  then show ?thesis by (simp only: numeral_3_eq_3)
qed

lemma pad4:
  "pad 4 n = [digit_char (n div 10 div 10 div 10), digit_char (n div 10 div 10),
              digit_char (n div 10), digit_char n]"
proof -
  have e: "(4::nat) = Suc (Suc (Suc (Suc 0)))" by simp
  show ?thesis by (subst e) (simp del: div_mult2_eq)
qed

lemma pad6:
  "pad 6 n = [digit_char (n div 10 div 10 div 10 div 10 div 10),
              digit_char (n div 10 div 10 div 10 div 10), digit_char (n div 10 div 10 div 10),
              digit_char (n div 10 div 10), digit_char (n div 10), digit_char n]"
proof -
  have e: "(6::nat) = Suc (Suc (Suc (Suc (Suc (Suc 0)))))" by simp
  show ?thesis by (subst e) (simp del: div_mult2_eq)
qed

lemma toISOString_shape: "is_iso8601_utc (toISOString t)"
proof -
  obtain y m d where c: "civil_from_days (t div 86400000) = (y, m, d)"
    by (cases "civil_from_days (t div 86400000)")
  show ?thesis
    by (simp add: is_iso8601_utc_def toISOString_def c yearString_def Let_def pad2 pad3 pad4 pad6
        is_digit_digit_char)
qed


lemma findOption_Str:
  "findOption f (Str n) =
     (case optionsOf f of None \<Rightarrow> None | Some os \<Rightarrow> find (\<lambda>option. name' option = n) os)"
  by (simp add: findOption_def optionsOf_def split: option.splits)

lemma optionIdOrNull_Str:
  "optionIdOrNull f (Str n) = (case idOfName (optionsOf f) n of None \<Rightarrow> Null | Some i \<Rightarrow> Str i)"
  by (simp add: optionIdOrNull_def findOption_Str idOfName_def split: option.splits)

lemma matched_ids:
  "filter (\<lambda>id. id \<noteq> Null) (map (optionIdOrNull f) (map Str names)) =
   map Str (List.map_filter (idOfName (optionsOf f)) names)"
  by (induction names) (simp_all add: optionIdOrNull_Str List.map_filter_simps split: option.splits)

lemma multiSelect_Arr:
  "type f = ''MultiSelect'' \<Longrightarrow>
   getCellValueByFieldType P f (Arr xs) =
     Inr (Arr (filter (\<lambda>id. id \<noteq> Null) (map (optionIdOrNull f) xs)))"
  by (simp add: getCellValueByFieldType_def)

lemma multiSelect_Str:
  "type f = ''MultiSelect'' \<Longrightarrow>
   getCellValueByFieldType P f (Str n) =
     Inr (Arr (case idOfName (optionsOf f) n of None \<Rightarrow> [] | Some i \<Rightarrow> [Str i]))"
  by (cases "optionsOf f")
     (auto simp add: getCellValueByFieldType_def findOption_Str idOfName_def split: option.splits)

lemma toISOString_example: "toISOString 1704067200000 = ''2024-01-01T00:00:00.000Z''"
  by code_simp








text \<open>
  Claim C8. For a MultiSelect field with the options \<open>[{id: "o1", name: "Red"}, {id:
  "o2", name: "Blue"}]\<close>, coercing \<open>["Red", "Green"]\<close> returns \<open>["o1"]\<close>. For every
  MultiSelect field: an array of names is mapped, name by name, to the identifier of the
  first option of exactly that name, names without such an option being dropped, with no
  error; a single string is mapped to the one-element list of its option's identifier,
  or to the empty list when no option bears the name.
\<close>

theorem multi_select_names_to_ids:
  "getCellValueByFieldType P
     \<lparr>name = nm, type = ''MultiSelect'',
      property = Some \<lparr>options = Some [\<lparr>id' = ''o1'', name' = ''Red''\<rparr>, \<lparr>id' = ''o2'', name' = ''Blue''\<rparr>],
                       max' = mx\<rparr>\<rparr>
     (Arr [Str ''Red'', Str ''Green'']) = Inr (Arr [Str ''o1'']) \<and>
   (type f = ''MultiSelect'' \<longrightarrow>
      getCellValueByFieldType P f (Arr (map Str names)) =
        Inr (Arr (map Str (List.map_filter (idOfName (optionsOf f)) names))) \<and>
      getCellValueByFieldType P f (Str n) =
        Inr (Arr (case idOfName (optionsOf f) n of None \<Rightarrow> [] | Some i \<Rightarrow> [Str i])))"
proof (intro conjI impI)
  show "getCellValueByFieldType P
     \<lparr>name = nm, type = ''MultiSelect'',
      property = Some \<lparr>options = Some [\<lparr>id' = ''o1'', name' = ''Red''\<rparr>, \<lparr>id' = ''o2'', name' = ''Blue''\<rparr>],
                       max' = mx\<rparr>\<rparr>
     (Arr [Str ''Red'', Str ''Green'']) = Inr (Arr [Str ''o1''])"
    by (simp add: multiSelect_Arr optionIdOrNull_Str optionsOf_def idOfName_def)
next
  assume t: "type f = ''MultiSelect''"
  show "getCellValueByFieldType P f (Arr (map Str names)) =
        Inr (Arr (map Str (List.map_filter (idOfName (optionsOf f)) names)))"
    by (simp only: multiSelect_Arr [OF t] matched_ids)
  show "getCellValueByFieldType P f (Str n) =
        Inr (Arr (case idOfName (optionsOf f) n of None \<Rightarrow> [] | Some i \<Rightarrow> [Str i]))"
    by (rule multiSelect_Str [OF t])
qed

theorem multi_select_names_to_ids_witness:
  "type \<lparr>name = ''Tags'', type = ''MultiSelect'',
         property = Some \<lparr>options = Some [\<lparr>id' = ''o1'', name' = ''Red''\<rparr>, \<lparr>id' = ''o2'', name' = ''Blue''\<rparr>],
                          max' = (None :: int jsvalue option)\<rparr>\<rparr> = ''MultiSelect'' \<and>
   getCellValueByFieldType samplePlatform
     \<lparr>name = ''Tags'', type = ''MultiSelect'',
      property = Some \<lparr>options = Some [\<lparr>id' = ''o1'', name' = ''Red''\<rparr>, \<lparr>id' = ''o2'', name' = ''Blue''\<rparr>],
                       max' = None\<rparr>\<rparr>
     (Arr (map Str [''Blue'', ''Green'', ''Red''])) = Inr (Arr [Str ''o2'', Str ''o1'']) \<and>
   getCellValueByFieldType samplePlatform
     \<lparr>name = ''Tags'', type = ''MultiSelect'',
      property = Some \<lparr>options = Some [\<lparr>id' = ''o1'', name' = ''Red''\<rparr>, \<lparr>id' = ''o2'', name' = ''Blue''\<rparr>],
                       max' = None\<rparr>\<rparr>
     (Str ''Green'') = Inr (Arr [])"
proof -
  let ?m = "\<lparr>name = ''Tags'', type = ''MultiSelect'',
      property = Some \<lparr>options = Some [\<lparr>id' = ''o1'', name' = ''Red''\<rparr>, \<lparr>id' = ''o2'', name' = ''Blue''\<rparr>],
                       max' = (None :: int jsvalue option)\<rparr>\<rparr>"
  have 1: "type ?m = ''MultiSelect''" by simp
  note t = multi_select_names_to_ids [of samplePlatform "''x''" None ?m "[''Blue'', ''Green'', ''Red'']" "''Green''",
      THEN conjunct2, rule_format, OF 1]
  have a: "List.map_filter (idOfName (optionsOf ?m)) [''Blue'', ''Green'', ''Red''] = [''o2'', ''o1'']"
    by code_simp
  have b: "idOfName (optionsOf ?m) ''Green'' = None"
    by code_simp
  from t [unfolded a b] 1 show ?thesis by simp
qed

text \<open>
  Claim C9. For a DateTime field, coercing the empty string returns \<open>null\<close>; coercing a
  non-empty string that the platform parses as a date returns the \<open>toISOString\<close>
  rendering of that date, which has the shape of an ISO-8601 date-time in UTC; and for
  \<open>"2024-01-01"\<close>, which every platform parses as midnight UTC of that day
  (1704067200000 ms after the epoch), the result is \<open>"2024-01-01T00:00:00.000Z"\<close>.
\<close>

theorem date_time_cell_value:
  assumes "type f = ''DateTime''"
  shows "getCellValueByFieldType P f (Str []) = Inr Null \<and>
         (s \<noteq> [] \<and> dateParse P s = Some t \<longrightarrow>
            getCellValueByFieldType P f (Str s) = Inr (Str (toISOString t)) \<and>
            is_iso8601_utc (toISOString t)) \<and>
         (dateParse P ''2024-01-01'' = Some 1704067200000 \<longrightarrow>
            getCellValueByFieldType P f (Str ''2024-01-01'') = Inr (Str ''2024-01-01T00:00:00.000Z''))"
proof (intro conjI impI)
  show "getCellValueByFieldType P f (Str []) = Inr Null"
    by (simp add: getCellValueByFieldType_def assms)
next
  assume "s \<noteq> [] \<and> dateParse P s = Some t"
  then show "getCellValueByFieldType P f (Str s) = Inr (Str (toISOString t))"
    by (simp add: getCellValueByFieldType_def assms dateToISOString_def)
next
  show "is_iso8601_utc (toISOString t)"
    by (rule toISOString_shape)
next
  assume "dateParse P ''2024-01-01'' = Some 1704067200000"
  then show "getCellValueByFieldType P f (Str ''2024-01-01'') = Inr (Str ''2024-01-01T00:00:00.000Z'')"
    by (simp add: getCellValueByFieldType_def assms dateToISOString_def toISOString_example)
qed

theorem date_time_cell_value_witness:
  "type \<lparr>name = ''Due'', type = ''DateTime'', property = (None :: int FieldProperty option)\<rparr> = ''DateTime'' \<and>
   dateParse samplePlatform ''2024-01-01'' = Some 1704067200000 \<and>
   getCellValueByFieldType samplePlatform \<lparr>name = ''Due'', type = ''DateTime'', property = None\<rparr>
     (Str ''2024-01-01'') = Inr (Str ''2024-01-01T00:00:00.000Z'') \<and>
   is_iso8601_utc ''2024-01-01T00:00:00.000Z'' \<and>
   getCellValueByFieldType samplePlatform \<lparr>name = ''Due'', type = ''DateTime'', property = None\<rparr>
     (Str []) = Inr Null"
proof -
  let ?d = "\<lparr>name = ''Due'', type = ''DateTime'', property = (None :: int FieldProperty option)\<rparr>"
  have 1: "type ?d = ''DateTime''" by simp
  have 2: "dateParse samplePlatform ''2024-01-01'' = Some 1704067200000"
    by (simp add: samplePlatform_def)
  have 3: "''2024-01-01'' \<noteq> []" by simp
  note t = date_time_cell_value [OF 1, of samplePlatform "''2024-01-01''" 1704067200000]
  from t 2 3 have "getCellValueByFieldType samplePlatform ?d (Str ''2024-01-01'') =
                   Inr (Str (toISOString 1704067200000)) \<and> is_iso8601_utc (toISOString 1704067200000)"
    by blast
  then have 4: "getCellValueByFieldType samplePlatform ?d (Str ''2024-01-01'') =
                Inr (Str ''2024-01-01T00:00:00.000Z'') \<and> is_iso8601_utc ''2024-01-01T00:00:00.000Z''"
    unfolding toISOString_example .
  from t have 5: "getCellValueByFieldType samplePlatform ?d (Str []) = Inr Null" by blast
  from 1 2 4 5 show ?thesis by blast
qed

subsection \<open>The action boundary\<close>



lemma error_response:
  "formatToolResponse P (Obj [(''success'', Bool False), (''message'', Str m)]) True = errorEnvelope m"
  by (simp add: formatToolResponse_def errorEnvelope_def)


lemma errorEnvelope_ex: "\<exists>m. errorEnvelope x = errorEnvelope m"
  by (rule exI, rule refl)


lemma catchBlock_eq: "catchBlock P e = errorEnvelope (messageOf e)"
  by (simp add: catchBlock_def error_response)

lemma catchBlock_envelope: "\<exists>m. catchBlock P e = errorEnvelope m"
  by (simp add: catchBlock_eq errorEnvelope_ex)


lemma tryCatch_Inl: "\<exists>m. snd (tryCatch P (reqs, Inl e)) = errorEnvelope m"
  by (simp add: tryCatch_def catchBlock_envelope)

lemma tryCatch_Inr: "snd (tryCatch P (reqs, Inr r)) = r"
  by (simp add: tryCatch_def)

lemma failed_Inl: "failed (reqs, Inl e)"
  by (simp add: failed_def)

lemma failed_Inr: "failed (reqs, Inr result) \<longleftrightarrow> \<not> success result"
  by (simp add: failed_def)











lemma create_record_body_schema_failed:
  assumes "failed (getDatasheetFieldsSchema svc fetchFields node_id)"
  shows "\<exists>e. create_record_body P svc fetchFields fetchRecords node_id fields' attachments_fields =
           (if node_id = [] \<or> (fields' = None \<and> attachments_fields = None) then []
            else fst (getDatasheetFieldsSchema svc fetchFields node_id), Inl e) \<and>
         create_record_body P svc fetchFields fetchRecords' node_id fields' attachments_fields =
           (if node_id = [] \<or> (fields' = None \<and> attachments_fields = None) then []
            else fst (getDatasheetFieldsSchema svc fetchFields node_id), Inl e)"
proof (cases "getDatasheetFieldsSchema svc fetchFields node_id")
  case (Pair reqs r)
  show ?thesis
  proof (cases r)
    case (Inl e)
    then show ?thesis
      using Pair by (cases "node_id = [] \<or> (fields' = None \<and> attachments_fields = None)")
        (auto simp add: create_record_body_def)
  next
    case (Inr getFieldsResult)
    then have "\<not> success getFieldsResult"
      using assms Pair by (simp add: failed_Inr)
    then show ?thesis
      using Pair Inr by (cases "node_id = [] \<or> (fields' = None \<and> attachments_fields = None)")
        (auto simp add: create_record_body_def)
  qed
qed

lemma fields_request_is_GET:
  "list_all (\<lambda>req. http_method req = ''GET'') (fst (getDatasheetFieldsSchema svc fetch node_id))"
  by (simp add: getDatasheetFieldsSchema_def fetchFromAPI_def GET_def Let_def)

lemma record_request_is_POST:
  "list_all (\<lambda>req. http_method req = ''POST'')
     (fst (createDatasheetRecord P svc fetch node_id cells)) \<and>
   map url (fst (createDatasheetRecord P svc fetch node_id cells)) =
     [baseUrl svc @ ''/v1/datasheets/'' @ node_id @ ''/records'']"
  by (simp add: createDatasheetRecord_def fetchFromAPI_def Let_def)




text \<open>
  Claim C7. In \<open>create_record\<close>, whenever the schema fetch fails (it throws, or returns
  a body with \<open>success: false\<close>), the action returns an error envelope; the requests it
  has issued are at most the one \<open>GET\<close> of the schema fetch, so the \<open>POST\<close> of
  \<open>createDatasheetRecord\<close> is not among them, whatever the cells; and the outcome does
  not depend on how the remote side would have answered the write.
\<close>

theorem create_record_stops_after_failed_schema_fetch:
  assumes "failed (getDatasheetFieldsSchema svc fetchFields node_id)"
  shows "(\<exists>m. snd (create_record P svc fetchFields fetchRecords node_id fieldValues attachments_fields) =
               errorEnvelope m) \<and>
         (fst (create_record P svc fetchFields fetchRecords node_id fieldValues attachments_fields) = [] \<or>
          fst (create_record P svc fetchFields fetchRecords node_id fieldValues attachments_fields) =
            fst (getDatasheetFieldsSchema svc fetchFields node_id)) \<and>
         list_all (\<lambda>req. http_method req = ''GET'')
           (fst (create_record P svc fetchFields fetchRecords node_id fieldValues attachments_fields)) \<and>
         set (fst (create_record P svc fetchFields fetchRecords node_id fieldValues attachments_fields)) \<inter>
           set (fst (createDatasheetRecord P svc fetchRecords node_id cells)) = {} \<and>
         create_record P svc fetchFields fetchRecords node_id fieldValues attachments_fields =
           create_record P svc fetchFields fetchRecords' node_id fieldValues attachments_fields"
proof -
  let ?reqs = "if node_id = [] \<or> (fieldValues = None \<and> attachments_fields = None) then []
               else fst (getDatasheetFieldsSchema svc fetchFields node_id)"
  from create_record_body_schema_failed [OF assms, of P fetchRecords fieldValues attachments_fields fetchRecords']
  obtain e where
    b: "create_record_body P svc fetchFields fetchRecords node_id fieldValues attachments_fields =
          (?reqs, Inl e)"
    and b': "create_record_body P svc fetchFields fetchRecords' node_id fieldValues attachments_fields =
          (?reqs, Inl e)"
    by blast
  have 1: "\<exists>m. snd (create_record P svc fetchFields fetchRecords node_id fieldValues attachments_fields) =
               errorEnvelope m"
    unfolding create_record_def b by (rule tryCatch_Inl)
  have fst: "fst (create_record P svc fetchFields fetchRecords node_id fieldValues attachments_fields) = ?reqs"
    unfolding create_record_def b by (simp add: tryCatch_def)
  have 2: "fst (create_record P svc fetchFields fetchRecords node_id fieldValues attachments_fields) = [] \<or>
          fst (create_record P svc fetchFields fetchRecords node_id fieldValues attachments_fields) =
            fst (getDatasheetFieldsSchema svc fetchFields node_id)"
    unfolding fst by simp
  have 3: "list_all (\<lambda>req. http_method req = ''GET'')
           (fst (create_record P svc fetchFields fetchRecords node_id fieldValues attachments_fields))"
    unfolding fst using fields_request_is_GET [of svc fetchFields node_id] by simp
  have 4: "set (fst (create_record P svc fetchFields fetchRecords node_id fieldValues attachments_fields)) \<inter>
           set (fst (createDatasheetRecord P svc fetchRecords node_id cells)) = {}"
    using 3 record_request_is_POST [of P svc fetchRecords node_id cells]
    by (auto simp add: list_all_iff)
  have 5: "create_record P svc fetchFields fetchRecords node_id fieldValues attachments_fields =
           create_record P svc fetchFields fetchRecords' node_id fieldValues attachments_fields"
    unfolding create_record_def b b' ..
  from 1 2 3 4 5 show ?thesis by (intro conjI)
qed

theorem create_record_stops_after_failed_schema_fetch_witness:
  "failed (getDatasheetFieldsSchema \<lparr>apiKey = ''key'', baseUrl = ''https://api.test''\<rparr>
             (\<lambda>req. Inl (Error ''connect ECONNREFUSED'')
                :: thrown + int FieldSchemaVO list ResponseVO response) ''dst1'') \<and>
   create_record samplePlatform \<lparr>apiKey = ''key'', baseUrl = ''https://api.test''\<rparr>
     (\<lambda>req. Inl (Error ''connect ECONNREFUSED''))
     (\<lambda>req. Inr \<lparr>ok = True, statusText = ''OK'',
                    json = Inr \<lparr>success = True, message = None, data = Some (Arr [])\<rparr>,
                    text_body = Inr [], blob = Inr []\<rparr>)
     ''dst1'' (Some [(''Name'', Str ''Alice'')]) None =
   ([\<lparr>url = ''https://api.test/v1/datasheets/dst1/fields'', http_method = ''GET'',
      headers = [(''Authorization'', ''Bearer key''), (''Accept'', ''application/json''),
                 (''Content-Type'', ''application/json'')],
      body = NoBody\<rparr>],
    errorEnvelope ''connect ECONNREFUSED'')"
proof -
  let ?svc = "\<lparr>apiKey = ''key'', baseUrl = ''https://api.test''\<rparr>"
  let ?ff = "\<lambda>req :: request. (Inl (Error ''connect ECONNREFUSED'')
                :: thrown + int FieldSchemaVO list ResponseVO response)"
  let ?fr = "\<lambda>req :: request. (Inr \<lparr>ok = True, statusText = ''OK'',
                    json = Inr \<lparr>success = True, message = None, data = Some (Arr [])\<rparr>,
                    text_body = Inr [], blob = Inr []\<rparr> :: thrown + int jsvalue ResponseVO response)"
  let ?fr' = "\<lambda>req :: request. (Inl NonError :: thrown + int jsvalue ResponseVO response)"
  have f: "failed (getDatasheetFieldsSchema ?svc ?ff ''dst1'')"
    by (simp add: failed_def getDatasheetFieldsSchema_def fetchFromAPI_def Let_def)
  note t = create_record_stops_after_failed_schema_fetch [OF f, of samplePlatform ?fr
      "Some [(''Name'', Str ''Alice'')]" None "[]" ?fr']
  have "create_record samplePlatform ?svc ?ff ?fr' ''dst1'' (Some [(''Name'', Str ''Alice'')]) None =
   ([\<lparr>url = ''https://api.test/v1/datasheets/dst1/fields'', http_method = ''GET'',
      headers = [(''Authorization'', ''Bearer key''), (''Accept'', ''application/json''),
                 (''Content-Type'', ''application/json'')],
      body = NoBody\<rparr>],
    errorEnvelope ''connect ECONNREFUSED'')"
    by (simp add: create_record_def create_record_body_def getDatasheetFieldsSchema_def
        fetchFromAPI_def GET_def Let_def tryCatch_def catchBlock_def messageOf_def error_response)
  with t f show ?thesis by simp
qed

end
